theory Spec2Isabelle
  imports Main "HOL-Library.Word"
begin

section \<open>The Vulkan swapchain of the engine (vulkan/vulkan_swapchain.cc)\<close>

text \<open>
  A shallow embedding of \<^verbatim>\<open>vulkan::VulkanSwapchain\<close>: its constructor (the
  negotiation of the image chain), \<^verbatim>\<open>GetImages\<close>, \<^verbatim>\<open>GetSize\<close>,
  \<^verbatim>\<open>CreateSkiaSurface\<close>, \<^verbatim>\<open>CreateSwapchainImages\<close>, \<^verbatim>\<open>GetNextBackbuffer\<close>,
  \<^verbatim>\<open>AcquireSurface\<close> and \<^verbatim>\<open>Submit\<close>.

  The object is a record whose fields are the C++ members without their trailing
  underscore (\<^verbatim>\<open>valid_\<close> is \<open>valid\<close>, \<^verbatim>\<open>images_\<close> is \<open>images\<close>, ...).
  The collaborators of the class (the device, the platform's swapchain entry points,
  the backbuffer, the image and Skia) are not part of the file; every call into them is
  a branch on an outcome that the caller of the model supplies (a record of outcomes per
  call of a method), and every such call is appended, with its arguments and its
  outcome, to a log of calls that the method returns next to its result and the new
  object. An access to a vector with an index that is not checked, and a call through a
  smart pointer that may be null, are undefined in C++; the model returns
  \<open>Inl (OutOfBounds, log)\<close> or \<open>Inl (NullDereference, log)\<close> there, with the
  log of the calls made until then.
\<close>

subsection \<open>Handles, enumerations and structs of Vulkan and Skia\<close>

text \<open>Handles are opaque numbers; \<open>0\<close> is \<^verbatim>\<open>VK_NULL_HANDLE\<close>.\<close>

type_synonym VkSemaphore = nat
type_synonym VkFence = nat
type_synonym VkCommandBuffer = nat
type_synonym VkImage = nat
type_synonym VkSwapchainKHR = nat
type_synonym VkSurfaceKHR = nat
type_synonym VkFormat = nat
type_synonym VkColorSpaceKHR = nat
type_synonym uint32_t = "32 word"

definition VK_NULL_HANDLE :: nat where
  "VK_NULL_HANDLE = 0"

text \<open>
  \<^verbatim>\<open>VkResult\<close>: the three codes the class names, and every other code with its
  numeric value.
\<close>

datatype VkResult =
    VK_SUCCESS
  | VK_ERROR_OUT_OF_DATE_KHR
  | VK_ERROR_SURFACE_LOST_KHR
  | VK_RESULT_OTHER int

datatype VkPipelineStageFlagBits =
    VK_PIPELINE_STAGE_TOP_OF_PIPE_BIT
  | VK_PIPELINE_STAGE_COLOR_ATTACHMENT_OUTPUT_BIT
  | VK_PIPELINE_STAGE_BOTTOM_OF_PIPE_BIT

datatype VkImageLayout =
    VK_IMAGE_LAYOUT_UNDEFINED
  | VK_IMAGE_LAYOUT_COLOR_ATTACHMENT_OPTIMAL
  | VK_IMAGE_LAYOUT_PRESENT_SRC_KHR

datatype VkAccessFlagBits =
    VK_ACCESS_COLOR_ATTACHMENT_WRITE_BIT
  | VK_ACCESS_MEMORY_READ_BIT

datatype VkPresentModeKHR =
    VK_PRESENT_MODE_IMMEDIATE_KHR
  | VK_PRESENT_MODE_MAILBOX_KHR
  | VK_PRESENT_MODE_FIFO_KHR
  | VK_PRESENT_MODE_FIFO_RELAXED_KHR

record VkExtent2D =
  width :: uint32_t
  height :: uint32_t

record VkSurfaceCapabilitiesKHR =
  minImageCount :: uint32_t
  currentExtent :: VkExtent2D
  minImageExtent :: VkExtent2D
  maxImageExtent :: VkExtent2D

record VkSurfaceFormatKHR =
  format :: VkFormat
  colorSpace :: VkColorSpaceKHR

text \<open>
  The fields of \<^verbatim>\<open>VkSwapchainCreateInfoKHR\<close> that the constructor computes; the
  others are constants of the source.
\<close>

record VkSwapchainCreateInfoKHR =
  ci_surface :: VkSurfaceKHR
  ci_minImageCount :: uint32_t
  ci_imageFormat :: VkFormat
  ci_imageColorSpace :: VkColorSpaceKHR
  ci_imageExtent :: VkExtent2D
  ci_presentMode :: VkPresentModeKHR
  ci_oldSwapchain :: VkSwapchainKHR

text \<open>\<^verbatim>\<open>SkISize\<close>: two 32-bit signed integers.\<close>

type_synonym SkISize = "int \<times> int"

datatype GrPixelConfig = kUnknown_GrPixelConfig | kKnown_GrPixelConfig nat

text \<open>
  A Skia surface is identified by the image it wraps and its size;
  \<^verbatim>\<open>sk_sp<SkSurface>\<close> is \<open>SkSurface option\<close>, with \<open>None\<close> the null pointer.
\<close>

datatype SkSurface = SkSurface VkImage SkISize

subsection \<open>The backbuffer and the image\<close>

text \<open>
  \<^verbatim>\<open>VulkanBackbuffer\<close> (one slot of the ring): what its accessors return. Its
  \<^verbatim>\<open>WaitFences\<close> and \<^verbatim>\<open>ResetFences\<close> are calls into the device; their outcomes
  are supplied per call.
\<close>

record VulkanBackbuffer =
  bb_valid :: bool
  usage_semaphore :: VkSemaphore
  render_semaphore :: VkSemaphore
  usage_fence :: VkFence
  render_fence :: VkFence
  usage_command_buffer :: VkCommandBuffer
  render_command_buffer :: VkCommandBuffer

record VulkanImage =
  image_handle :: VkImage
  image_valid :: bool

subsection \<open>The log of calls into the collaborators\<close>

text \<open>
  \<open>WaitFences k r\<close> and \<open>ResetFences k r\<close>: the method was called on the backbuffer
  of slot \<open>k\<close> and returned \<open>r\<close>. The other calls carry their arguments as the source
  passes them, and their outcome last.
\<close>

datatype call =
    WaitFences nat bool
  | ResetFences nat bool
  | AcquireNextImageKHR VkSwapchainKHR VkSemaphore VkResult uint32_t
  | Begin VkCommandBuffer bool
  | InsertImageMemoryBarrier VkImage VkCommandBuffer VkPipelineStageFlagBits
      VkPipelineStageFlagBits VkAccessFlagBits VkImageLayout bool
  | End VkCommandBuffer bool
  | QueueSubmit "VkPipelineStageFlagBits list" "VkSemaphore list" "VkSemaphore list"
      "VkCommandBuffer list" VkFence bool
  | getRenderTargetHandle SkSurface bool
  | updateImageLayout SkSurface VkImageLayout
  | QueuePresentKHR "VkSemaphore list" "VkSwapchainKHR list" "uint32_t list" VkResult
  | CreateSwapchainKHR VkSwapchainCreateInfoKHR VkResult

fun is_ResetFences :: "call \<Rightarrow> bool" where
  "is_ResetFences (ResetFences k r) = True"
| "is_ResetFences c = False"

fun is_QueueSubmit :: "call \<Rightarrow> bool" where
  "is_QueueSubmit (QueueSubmit st ws ss cb f r) = True"
| "is_QueueSubmit c = False"

fun is_QueuePresentKHR :: "call \<Rightarrow> bool" where
  "is_QueuePresentKHR (QueuePresentKHR ws sc ix r) = True"
| "is_QueuePresentKHR c = False"

subsection \<open>The swapchain object\<close>

datatype AcquireStatus = Success | ErrorSurfaceOutOfDate | ErrorSurfaceLost

type_synonym AcquireResult = "AcquireStatus \<times> SkSurface option"

datatype undefined_behaviour = OutOfBounds | NullDereference

record VulkanSwapchain =
  capabilities :: VkSurfaceCapabilitiesKHR
  surface_format :: VkSurfaceFormatKHR
  swapchain :: VkSwapchainKHR
  backbuffers :: "VulkanBackbuffer list"
  images :: "VulkanImage list"
  surfaces :: "SkSurface option list"
  current_pipeline_stage :: VkPipelineStageFlagBits
  current_backbuffer_index :: nat
  current_image_index :: nat
  valid :: bool

definition IsValid :: "VulkanSwapchain \<Rightarrow> bool" where
  "IsValid s = valid s"

subsection \<open>Negotiation: the constructor\<close>

text \<open>
  What the collaborators answer during one construction. An out-parameter that a call
  may leave alone is an option: \<open>None\<close> leaves the variable of the constructor as it was.
\<close>

record negotiation_env =
  device_IsValid :: bool
  surface_IsValid :: bool
  surface_Handle :: VkSurfaceKHR
  GetSurfaceCapabilities :: "bool \<times> VkSurfaceCapabilitiesKHR option"
  ChooseSurfaceFormat :: "bool \<times> VkSurfaceFormatKHR option"
  ChoosePresentMode :: "bool \<times> VkPresentModeKHR option"
  GetPhysicalDeviceSurfaceSupportKHR :: "VkResult \<times> bool"
  CreateSwapchainKHR_result :: "VkResult \<times> VkSwapchainKHR"
  GetSwapchainImagesKHR_count :: "VkResult \<times> uint32_t"
  GetSwapchainImagesKHR_fill :: "VkResult \<times> VkImage list"
  new_VulkanBackbuffer :: "nat \<Rightarrow> VulkanBackbuffer"
  VulkanImage_IsValid :: "VkImage \<Rightarrow> bool"
  GrVkFormatToPixelConfig :: "VkFormat \<Rightarrow> GrPixelConfig"
  MakeFromBackendRenderTarget :: "VkImage \<Rightarrow> SkISize \<Rightarrow> bool"

text \<open>
  \<^verbatim>\<open>GetImages\<close>: the first call reports the count, the vector is resized to it
  (filled with null handles), the second call writes the handles into it. The vector
  keeps the size of the first count whatever the second call writes.
\<close>

definition GetImages :: "negotiation_env \<Rightarrow> VkImage list" where
  "GetImages env =
     (let (r1, count) = GetSwapchainImagesKHR_count env in
      if r1 \<noteq> VK_SUCCESS then []
      else if count = 0 then []
      else
        let (r2, written) = GetSwapchainImagesKHR_fill env;
            imgs = take (unat count) (written @ replicate (unat count) VK_NULL_HANDLE)
        in if r2 \<noteq> VK_SUCCESS then [] else imgs)"

definition clamp_extent :: "uint32_t \<Rightarrow> uint32_t \<Rightarrow> uint32_t \<Rightarrow> uint32_t" where
  "clamp_extent x lo hi = (if x < lo then lo else if x > hi then hi else x)"

definition GetSize :: "VulkanSwapchain \<Rightarrow> SkISize" where
  "GetSize s =
     (let c = capabilities s;
          w = clamp_extent (width (currentExtent c)) (width (minImageExtent c))
                (width (maxImageExtent c));
          h = clamp_extent (height (currentExtent c)) (height (minImageExtent c))
                (height (maxImageExtent c))
      in (sint w, sint h))"

definition CreateSkiaSurface ::
  "negotiation_env \<Rightarrow> VulkanSwapchain \<Rightarrow> bool \<Rightarrow> VkImage \<Rightarrow> SkISize \<Rightarrow> SkSurface option" where
  "CreateSkiaSurface env s gr_context img sz =
     (if \<not> gr_context then None
      else
        let pixel_config = GrVkFormatToPixelConfig env (format (surface_format s)) in
        if pixel_config = kUnknown_GrPixelConfig then None
        else if MakeFromBackendRenderTarget env img sz then Some (SkSurface img sz)
        else None)"

text \<open>The body of the loop of \<^verbatim>\<open>CreateSwapchainImages\<close>, over the images left.\<close>

fun populate ::
  "negotiation_env \<Rightarrow> bool \<Rightarrow> SkISize \<Rightarrow> VkImage list \<Rightarrow> VulkanSwapchain \<Rightarrow> bool \<times> VulkanSwapchain" where
  "populate env skia_context surface_size [] s = (True, s)"
| "populate env skia_context surface_size (img # rest) s =
     (let backbuffer = new_VulkanBackbuffer env (length (backbuffers s)) in
      if \<not> bb_valid backbuffer then (False, s)
      else
        let s1 = s\<lparr>backbuffers := backbuffers s @ [backbuffer]\<rparr>;
            vulkan_image = \<lparr>image_handle = img, image_valid = VulkanImage_IsValid env img\<rparr>
        in
        if \<not> image_valid vulkan_image then (False, s1)
        else
          let s2 = s1\<lparr>images := images s1 @ [vulkan_image]\<rparr>;
              surface = CreateSkiaSurface env s2 skia_context img surface_size
          in
          if surface = None then (False, s2)
          else populate env skia_context surface_size rest
                 (s2\<lparr>surfaces := surfaces s2 @ [surface]\<rparr>))"

definition CreateSwapchainImages ::
  "negotiation_env \<Rightarrow> bool \<Rightarrow> VulkanSwapchain \<Rightarrow> bool \<times> VulkanSwapchain" where
  "CreateSwapchainImages env skia_context s =
     (let imgs = GetImages env in
      if length imgs = 0 then (False, s)
      else populate env skia_context (GetSize s) imgs s)"

text \<open>The members as the initialiser list of the constructor leaves them.\<close>

definition zero_extent :: VkExtent2D where
  "zero_extent = \<lparr>width = 0, height = 0\<rparr>"

definition initial_swapchain :: VulkanSwapchain where
  "initial_swapchain =
     \<lparr>capabilities = \<lparr>minImageCount = 0, currentExtent = zero_extent,
                       minImageExtent = zero_extent, maxImageExtent = zero_extent\<rparr>,
      surface_format = \<lparr>format = 0, colorSpace = 0\<rparr>,
      swapchain = VK_NULL_HANDLE,
      backbuffers = [],
      images = [],
      surfaces = [],
      current_pipeline_stage = VK_PIPELINE_STAGE_TOP_OF_PIPE_BIT,
      current_backbuffer_index = 0,
      current_image_index = 0,
      valid = False\<rparr>"

text \<open>
  The constructor. \<open>skia_context\<close> says that the pointer is not null; \<open>old_swapchain\<close>
  is the previous chain, if one is passed. The result is the object and the log.
\<close>

definition construct ::
  "negotiation_env \<Rightarrow> bool \<Rightarrow> VulkanSwapchain option \<Rightarrow> VulkanSwapchain \<times> call list" where
  "construct env skia_context old_swapchain =
     (let s = initial_swapchain in
      if \<not> device_IsValid env \<or> \<not> surface_IsValid env \<or> \<not> skia_context then (s, [])
      else
        let s1 = (case snd (GetSurfaceCapabilities env) of
                    None \<Rightarrow> s | Some c \<Rightarrow> s\<lparr>capabilities := c\<rparr>) in
        if \<not> fst (GetSurfaceCapabilities env) then (s1, [])
        else
          let s2 = (case snd (ChooseSurfaceFormat env) of
                      None \<Rightarrow> s1 | Some f \<Rightarrow> s1\<lparr>surface_format := f\<rparr>) in
          if \<not> fst (ChooseSurfaceFormat env) then (s2, [])
          else
            let present_mode = (case snd (ChoosePresentMode env) of
                                  None \<Rightarrow> VK_PRESENT_MODE_FIFO_KHR | Some m \<Rightarrow> m) in
            if \<not> fst (ChoosePresentMode env) then (s2, [])
            else if fst (GetPhysicalDeviceSurfaceSupportKHR env) \<noteq> VK_SUCCESS then (s2, [])
            else if \<not> snd (GetPhysicalDeviceSurfaceSupportKHR env) then (s2, [])
            else
              let old_swapchain_handle =
                    (case old_swapchain of
                       None \<Rightarrow> VK_NULL_HANDLE
                     | Some old \<Rightarrow> if IsValid old then swapchain old else VK_NULL_HANDLE);
                  create_info =
                    \<lparr>ci_surface = surface_Handle env,
                     ci_minImageCount = minImageCount (capabilities s2),
                     ci_imageFormat = format (surface_format s2),
                     ci_imageColorSpace = colorSpace (surface_format s2),
                     ci_imageExtent = currentExtent (capabilities s2),
                     ci_presentMode = present_mode,
                     ci_oldSwapchain = old_swapchain_handle\<rparr>;
                  log = [CreateSwapchainKHR create_info (fst (CreateSwapchainKHR_result env))]
              in
              if fst (CreateSwapchainKHR_result env) \<noteq> VK_SUCCESS then (s2, log)
              else
                let s3 = s2\<lparr>swapchain := snd (CreateSwapchainKHR_result env)\<rparr>;
                    (ok, s4) = CreateSwapchainImages env skia_context s3
                in
                if \<not> ok then (s4, log)
                else (s4\<lparr>valid := True\<rparr>, log))"

subsection \<open>Acquiring an image\<close>

text \<open>
  \<^verbatim>\<open>GetNextBackbuffer\<close> returns the slot it selected (the source returns the pointer
  stored there) or \<open>None\<close> for the null pointer, and the object. The index it reads is
  below the size of the vector, as it is a remainder modulo that size.
\<close>

definition GetNextBackbuffer :: "VulkanSwapchain \<Rightarrow> nat option \<times> VulkanSwapchain" where
  "GetNextBackbuffer s =
     (let available_backbuffers = length (backbuffers s) in
      if available_backbuffers = 0 then (None, s)
      else
        let next_backbuffer_index = (current_backbuffer_index s + 1) mod length (backbuffers s);
            backbuffer = backbuffers s ! next_backbuffer_index
        in
        if \<not> bb_valid backbuffer then (None, s)
        else (Some next_backbuffer_index, s\<lparr>current_backbuffer_index := next_backbuffer_index\<rparr>))"

text \<open>What the collaborators answer during one call of \<^verbatim>\<open>AcquireSurface\<close>.\<close>

record acquire_env =
  WaitFences_result :: bool
  ResetFences_result :: bool
  AcquireNextImageKHR_result :: VkResult
  AcquireNextImageKHR_index :: uint32_t
  usage_Begin_result :: bool
  usage_barrier_result :: bool
  usage_End_result :: bool
  usage_QueueSubmit_result :: bool
  usage_getRenderTargetHandle_result :: bool

definition AcquireSurface ::
  "acquire_env \<Rightarrow> VulkanSwapchain \<Rightarrow>
     (undefined_behaviour \<times> call list) + (AcquireResult \<times> VulkanSwapchain \<times> call list)" where
  "AcquireSurface env s =
     (let error = (ErrorSurfaceLost, None) in
      if \<not> IsValid s then Inr (error, s, [])
      else
        case GetNextBackbuffer s of
          (None, s0) \<Rightarrow> Inr (error, s0, [])
        | (Some slot, s0) \<Rightarrow>
            let backbuffer = backbuffers s0 ! slot;
                log1 = [WaitFences slot (WaitFences_result env)]
            in
            if \<not> WaitFences_result env then Inr (error, s0, log1)
            else
              let log2 = log1 @ [ResetFences slot (ResetFences_result env)] in
              if \<not> ResetFences_result env then Inr (error, s0, log2)
              else
                let next_image_index = AcquireNextImageKHR_index env;
                    acquire_result = AcquireNextImageKHR_result env;
                    log3 = log2 @ [AcquireNextImageKHR (swapchain s0) (usage_semaphore backbuffer)
                                     acquire_result next_image_index]
                in
                case acquire_result of
                  VK_ERROR_OUT_OF_DATE_KHR \<Rightarrow> Inr ((ErrorSurfaceOutOfDate, None), s0, log3)
                | VK_ERROR_SURFACE_LOST_KHR \<Rightarrow> Inr ((ErrorSurfaceLost, None), s0, log3)
                | VK_RESULT_OTHER c \<Rightarrow> Inr ((ErrorSurfaceLost, None), s0, log3)
                | VK_SUCCESS \<Rightarrow>
                    if unat next_image_index \<ge> length (images s0) then Inr (error, s0, log3)
                    else
                      let img = images s0 ! unat next_image_index in
                      if \<not> image_valid img then Inr (error, s0, log3)
                      else
                        let log4 = log3 @ [Begin (usage_command_buffer backbuffer)
                                             (usage_Begin_result env)] in
                        if \<not> usage_Begin_result env then Inr (error, s0, log4)
                        else
                          let destination_pipeline_stage =
                                VK_PIPELINE_STAGE_COLOR_ATTACHMENT_OUTPUT_BIT;
                              destination_image_layout =
                                VK_IMAGE_LAYOUT_COLOR_ATTACHMENT_OPTIMAL;
                              log5 = log4 @ [InsertImageMemoryBarrier (image_handle img)
                                               (usage_command_buffer backbuffer)
                                               (current_pipeline_stage s0)
                                               destination_pipeline_stage
                                               VK_ACCESS_COLOR_ATTACHMENT_WRITE_BIT
                                               destination_image_layout
                                               (usage_barrier_result env)]
                          in
                          if \<not> usage_barrier_result env then Inr (error, s0, log5)
                          else
                            let s1 = s0\<lparr>current_pipeline_stage := destination_pipeline_stage\<rparr>;
                                log6 = log5 @ [End (usage_command_buffer backbuffer)
                                                 (usage_End_result env)]
                            in
                            if \<not> usage_End_result env then Inr (error, s1, log6)
                            else
                              let wait_semaphores = [usage_semaphore backbuffer];
                                  signal_semaphores = [];
                                  command_buffers = [usage_command_buffer backbuffer];
                                  log7 = log6 @ [QueueSubmit [destination_pipeline_stage]
                                                   wait_semaphores signal_semaphores
                                                   command_buffers (usage_fence backbuffer)
                                                   (usage_QueueSubmit_result env)]
                              in
                              if \<not> usage_QueueSubmit_result env then Inr (error, s1, log7)
                              else if unat next_image_index \<ge> length (surfaces s1)
                              then Inl (OutOfBounds, log7)
                              else
                                case surfaces s1 ! unat next_image_index of
                                  None \<Rightarrow> Inr (error, s1, log7)
                                | Some sk \<Rightarrow>
                                    let log8 = log7 @ [getRenderTargetHandle sk
                                                  (usage_getRenderTargetHandle_result env)] in
                                    if \<not> usage_getRenderTargetHandle_result env
                                    then Inr (error, s1, log8)
                                    else
                                      let log9 = log8 @ [updateImageLayout sk
                                                           destination_image_layout];
                                          s2 = s1\<lparr>current_image_index := unat next_image_index\<rparr>
                                      in Inr ((Success, Some sk), s2, log9))"

subsection \<open>Submitting the image\<close>

text \<open>What the collaborators answer during one call of \<^verbatim>\<open>Submit\<close>.\<close>

record submit_env =
  render_getRenderTargetHandle_result :: bool
  render_Begin_result :: bool
  render_barrier_result :: bool
  render_End_result :: bool
  render_QueueSubmit_result :: bool
  QueuePresentKHR_result :: VkResult

definition Submit ::
  "submit_env \<Rightarrow> VulkanSwapchain \<Rightarrow>
     (undefined_behaviour \<times> call list) + (bool \<times> VulkanSwapchain \<times> call list)" where
  "Submit env s =
     (if \<not> IsValid s then Inr (False, s, [])
      else if current_image_index s \<ge> length (surfaces s) then Inl (OutOfBounds, [])
      else if current_image_index s \<ge> length (images s) then Inl (OutOfBounds, [])
      else if current_backbuffer_index s \<ge> length (backbuffers s) then Inl (OutOfBounds, [])
      else
        let img = images s ! current_image_index s;
            backbuffer = backbuffers s ! current_backbuffer_index s
        in
        case surfaces s ! current_image_index s of
          None \<Rightarrow> Inl (NullDereference, [])
        | Some surface \<Rightarrow>
            let log1 = [getRenderTargetHandle surface (render_getRenderTargetHandle_result env)] in
            if \<not> render_getRenderTargetHandle_result env then Inr (False, s, log1)
            else
              let log2 = log1 @ [Begin (render_command_buffer backbuffer)
                                   (render_Begin_result env)] in
              if \<not> render_Begin_result env then Inr (False, s, log2)
              else
                let destination_pipeline_stage = VK_PIPELINE_STAGE_BOTTOM_OF_PIPE_BIT;
                    destination_image_layout = VK_IMAGE_LAYOUT_PRESENT_SRC_KHR;
                    log3 = log2 @ [InsertImageMemoryBarrier (image_handle img)
                                     (render_command_buffer backbuffer)
                                     (current_pipeline_stage s)
                                     destination_pipeline_stage
                                     VK_ACCESS_MEMORY_READ_BIT
                                     destination_image_layout
                                     (render_barrier_result env)]
                in
                if \<not> render_barrier_result env then Inr (False, s, log3)
                else
                  let s1 = s\<lparr>current_pipeline_stage := destination_pipeline_stage\<rparr>;
                      log4 = log3 @ [End (render_command_buffer backbuffer)
                                       (render_End_result env)]
                  in
                  if \<not> render_End_result env then Inr (False, s1, log4)
                  else
                    let wait_semaphores = [];
                        queue_signal_semaphores = [render_semaphore backbuffer];
                        command_buffers = [render_command_buffer backbuffer];
                        log5 = log4 @ [QueueSubmit [] wait_semaphores queue_signal_semaphores
                                         command_buffers (render_fence backbuffer)
                                         (render_QueueSubmit_result env)]
                    in
                    if \<not> render_QueueSubmit_result env then Inr (False, s1, log5)
                    else
                      let present_image_index = (of_nat (current_image_index s1) :: uint32_t);
                          log6 = log5 @ [QueuePresentKHR queue_signal_semaphores [swapchain s1]
                                           [present_image_index] (QueuePresentKHR_result env)]
                      in
                      if QueuePresentKHR_result env \<noteq> VK_SUCCESS then Inr (False, s1, log6)
                      else Inr (True, s1, log6))"

subsection \<open>Notions used to state the properties\<close>

text \<open>The calls a method made, whether it returned or ran into undefined behaviour.\<close>

definition calls_of ::
  "(undefined_behaviour \<times> call list) + ('a \<times> VulkanSwapchain \<times> call list) \<Rightarrow> call list" where
  "calls_of x = (case x of Inl (u, log) \<Rightarrow> log | Inr (r, s, log) \<Rightarrow> log)"

text \<open>
  A device that asserts the order of the calls on fences: it keeps the slots whose
  \<^verbatim>\<open>WaitFences\<close> has returned success and accepts a \<^verbatim>\<open>ResetFences\<close> on those only.
\<close>

fun reset_after_wait :: "nat list \<Rightarrow> call list \<Rightarrow> bool" where
  "reset_after_wait waited [] = True"
| "reset_after_wait waited (WaitFences k r # cs) =
     reset_after_wait (if r then k # waited else waited) cs"
| "reset_after_wait waited (ResetFences k r # cs) =
     (k \<in> set waited \<and> reset_after_wait waited cs)"
| "reset_after_wait waited (c # cs) = reset_after_wait waited cs"

text \<open>
  The invariant of a chain: a valid chain has as many backbuffers as images and as
  surfaces, fewer than \<open>2 ^ 32\<close> of them (the platform counts them in 32 bits), both
  indices are inside the vectors, and no surface is null.
\<close>

definition chain_inv :: "VulkanSwapchain \<Rightarrow> bool" where
  "chain_inv s =
     (IsValid s \<longrightarrow>
        length (backbuffers s) = length (images s) \<and>
        length (images s) = length (surfaces s) \<and>
        length (images s) < 2 ^ 32 \<and>
        current_image_index s < length (images s) \<and>
        current_backbuffer_index s < length (backbuffers s) \<and>
        None \<notin> set (surfaces s))"

text \<open>
  Consecutive frames: each frame is one \<^verbatim>\<open>AcquireSurface\<close> that succeeds followed by
  one \<^verbatim>\<open>Submit\<close>. The result lists, frame by frame, the slot that
  \<^verbatim>\<open>current_backbuffer_index_\<close> names between the two calls; the run ends at the first
  acquisition that does not succeed.
\<close>

fun frame_slots :: "(acquire_env \<times> submit_env) list \<Rightarrow> VulkanSwapchain \<Rightarrow> nat list" where
  "frame_slots [] s = []"
| "frame_slots (e # rest) s =
     (case AcquireSurface (fst e) s of
        Inl u \<Rightarrow> []
      | Inr (r, s1, log1) \<Rightarrow>
          if fst r \<noteq> Success then []
          else
            (case Submit (snd e) s1 of
               Inl u \<Rightarrow> []
             | Inr (ok, s2, log2) \<Rightarrow> current_backbuffer_index s1 # frame_slots rest s2))"

subsection \<open>A concrete surface, device and chain\<close>

definition example_backbuffer :: "nat \<Rightarrow> VulkanBackbuffer" where
  "example_backbuffer k =
     \<lparr>bb_valid = True,
      usage_semaphore = 10 * k + 1, render_semaphore = 10 * k + 2,
      usage_fence = 10 * k + 3, render_fence = 10 * k + 4,
      usage_command_buffer = 10 * k + 5, render_command_buffer = 10 * k + 6\<rparr>"

definition example_capabilities :: VkSurfaceCapabilitiesKHR where
  "example_capabilities =
     \<lparr>minImageCount = 3,
      currentExtent = \<lparr>width = 800, height = 600\<rparr>,
      minImageExtent = \<lparr>width = 1, height = 1\<rparr>,
      maxImageExtent = \<lparr>width = 4096, height = 4096\<rparr>\<rparr>"

text \<open>
  A surface with three images, on a device that chooses a format and leaves the present
  mode it is handed as it is.
\<close>

definition example_negotiation :: negotiation_env where
  "example_negotiation =
     \<lparr>device_IsValid = True,
      surface_IsValid = True,
      surface_Handle = 7,
      GetSurfaceCapabilities = (True, Some example_capabilities),
      ChooseSurfaceFormat = (True, Some \<lparr>format = 44, colorSpace = 0\<rparr>),
      ChoosePresentMode = (True, None),
      GetPhysicalDeviceSurfaceSupportKHR = (VK_SUCCESS, True),
      CreateSwapchainKHR_result = (VK_SUCCESS, 9),
      GetSwapchainImagesKHR_count = (VK_SUCCESS, 3),
      GetSwapchainImagesKHR_fill = (VK_SUCCESS, [101, 102, 103]),
      new_VulkanBackbuffer = example_backbuffer,
      VulkanImage_IsValid = (\<lambda>h. h \<noteq> VK_NULL_HANDLE),
      GrVkFormatToPixelConfig = (\<lambda>f. kKnown_GrPixelConfig f),
      MakeFromBackendRenderTarget = (\<lambda>h sz. True)\<rparr>"

text \<open>The same surface when the platform reports no image.\<close>

definition example_negotiation_no_image :: negotiation_env where
  "example_negotiation_no_image =
     example_negotiation\<lparr>GetSwapchainImagesKHR_count := (VK_SUCCESS, 0)\<rparr>"

definition example_chain :: VulkanSwapchain where
  "example_chain =
     \<lparr>capabilities = example_capabilities,
      surface_format = \<lparr>format = 44, colorSpace = 0\<rparr>,
      swapchain = 9,
      backbuffers = [example_backbuffer 0, example_backbuffer 1, example_backbuffer 2],
      images = [\<lparr>image_handle = 101, image_valid = True\<rparr>,
                \<lparr>image_handle = 102, image_valid = True\<rparr>,
                \<lparr>image_handle = 103, image_valid = True\<rparr>],
      surfaces = [Some (SkSurface 101 (800, 600)), Some (SkSurface 102 (800, 600)),
                  Some (SkSurface 103 (800, 600))],
      current_pipeline_stage = VK_PIPELINE_STAGE_TOP_OF_PIPE_BIT,
      current_backbuffer_index = 0,
      current_image_index = 0,
      valid = True\<rparr>"

text \<open>
  The same chain marked invalid: it keeps its three slots, images and surfaces, and slot 2
  and image 1 are current.
\<close>

definition example_invalid_chain :: VulkanSwapchain where
  "example_invalid_chain =
     example_chain\<lparr>current_backbuffer_index := 2, current_image_index := 1, valid := False\<rparr>"

text \<open>A call of \<^verbatim>\<open>AcquireSurface\<close> in which every step succeeds and image 2 comes back.\<close>

definition example_acquire :: acquire_env where
  "example_acquire =
     \<lparr>WaitFences_result = True,
      ResetFences_result = True,
      AcquireNextImageKHR_result = VK_SUCCESS,
      AcquireNextImageKHR_index = 2,
      usage_Begin_result = True,
      usage_barrier_result = True,
      usage_End_result = True,
      usage_QueueSubmit_result = True,
      usage_getRenderTargetHandle_result = True\<rparr>"

text \<open>A call of \<^verbatim>\<open>Submit\<close> in which every step succeeds.\<close>

definition example_submit :: submit_env where
  "example_submit =
     \<lparr>render_getRenderTargetHandle_result = True,
      render_Begin_result = True,
      render_barrier_result = True,
      render_End_result = True,
      render_QueueSubmit_result = True,
      QueuePresentKHR_result = VK_SUCCESS\<rparr>"

text \<open>The same call with another answer of the platform to the acquisition.\<close>

definition example_acquire_answer :: "VkResult \<Rightarrow> uint32_t \<Rightarrow> acquire_env" where
  "example_acquire_answer r i =
     example_acquire\<lparr>AcquireNextImageKHR_result := r, AcquireNextImageKHR_index := i\<rparr>"

text \<open>The same call when the fences of the slot cannot be waited for.\<close>

definition example_acquire_wait_fails :: acquire_env where
  "example_acquire_wait_fails = example_acquire\<lparr>WaitFences_result := False\<rparr>"

text \<open>The chain after \<open>example_acquire\<close>: slot 1 is selected and image 2 is current.\<close>

definition example_acquired :: VulkanSwapchain where
  "example_acquired =
     example_chain\<lparr>current_pipeline_stage := VK_PIPELINE_STAGE_COLOR_ATTACHMENT_OUTPUT_BIT,
                    current_backbuffer_index := 1, current_image_index := 2\<rparr>"

definition example_acquire_log :: "call list" where
  "example_acquire_log =
     [AcquireNextImageKHR 9 11 VK_SUCCESS 2,
      Begin 15 True,
      InsertImageMemoryBarrier 103 15 VK_PIPELINE_STAGE_TOP_OF_PIPE_BIT
        VK_PIPELINE_STAGE_COLOR_ATTACHMENT_OUTPUT_BIT VK_ACCESS_COLOR_ATTACHMENT_WRITE_BIT
        VK_IMAGE_LAYOUT_COLOR_ATTACHMENT_OPTIMAL True,
      End 15 True,
      QueueSubmit [VK_PIPELINE_STAGE_COLOR_ATTACHMENT_OUTPUT_BIT] [11] [] [15] 13 True,
      getRenderTargetHandle (SkSurface 103 (800, 600)) True,
      updateImageLayout (SkSurface 103 (800, 600)) VK_IMAGE_LAYOUT_COLOR_ATTACHMENT_OPTIMAL]"

text \<open>The same call of \<^verbatim>\<open>Submit\<close> when the platform refuses to present.\<close>

definition example_submit_present_fails :: submit_env where
  "example_submit_present_fails =
     example_submit\<lparr>QueuePresentKHR_result := VK_ERROR_OUT_OF_DATE_KHR\<rparr>"

definition example_submit_log :: "VkResult \<Rightarrow> call list" where
  "example_submit_log r =
     [getRenderTargetHandle (SkSurface 103 (800, 600)) True,
      Begin 16 True,
      InsertImageMemoryBarrier 103 16 VK_PIPELINE_STAGE_COLOR_ATTACHMENT_OUTPUT_BIT
        VK_PIPELINE_STAGE_BOTTOM_OF_PIPE_BIT VK_ACCESS_MEMORY_READ_BIT
        VK_IMAGE_LAYOUT_PRESENT_SRC_KHR True,
      End 16 True,
      QueueSubmit [] [] [12] [16] 14 True,
      QueuePresentKHR [12] [9] [2] r]"

section \<open>Properties\<close>

subsection \<open>An invalid chain\<close>

text \<open>
  C7. \<^verbatim>\<open>AcquireSurface\<close> on an invalid chain returns \<^verbatim>\<open>ErrorSurfaceLost\<close> with no
  render target, leaves the whole object as it was (the backbuffer index, the current
  image index, every backbuffer and every other member) and calls no collaborator, so
  no fence and no command buffer of any slot is touched.
\<close>

theorem AcquireSurface_invalid_chain:
  "\<not> IsValid s \<Longrightarrow> AcquireSurface env s = Inr ((ErrorSurfaceLost, None), s, [])"
  by (simp add: AcquireSurface_def)

theorem AcquireSurface_invalid_chain_witness:
  "\<not> IsValid example_invalid_chain \<and>
   length (backbuffers example_invalid_chain) = 3 \<and>
   bb_valid (backbuffers example_invalid_chain ! 0) \<and>
   AcquireSurface example_acquire example_invalid_chain =
     Inr ((ErrorSurfaceLost, None), example_invalid_chain, []) \<and>
   current_backbuffer_index example_invalid_chain = 2 \<and>
   current_image_index example_invalid_chain = 1"
proof -
  have invalid: "\<not> IsValid example_invalid_chain"
    by (simp add: IsValid_def example_invalid_chain_def)
  have slots: "length (backbuffers example_invalid_chain) = 3"
    "bb_valid (backbuffers example_invalid_chain ! 0)"
    "current_backbuffer_index example_invalid_chain = 2"
    "current_image_index example_invalid_chain = 1"
    by (simp_all add: example_invalid_chain_def example_chain_def example_backbuffer_def)
  from AcquireSurface_invalid_chain [OF invalid, of example_acquire] invalid slots
  show ?thesis by simp
qed

subsection \<open>Facts about the two methods\<close>

lemmas acquire_defs = AcquireSurface_def calls_of_def GetNextBackbuffer_def Let_def

lemmas acquire_splits = option.splits VkResult.splits prod.splits if_splits

lemmas submit_defs = Submit_def calls_of_def Let_def

lemmas example_defs = example_chain_def example_acquire_def example_submit_def
  example_backbuffer_def example_acquired_def example_acquire_log_def example_submit_log_def
  example_acquire_answer_def example_acquire_wait_fails_def example_submit_present_fails_def
  IsValid_def

text \<open>The log of \<^verbatim>\<open>AcquireSurface\<close> passes the device that asserts the order.\<close>

lemma AcquireSurface_monitor: "reset_after_wait [] (calls_of (AcquireSurface env s))"
  by (auto simp: acquire_defs split: option.splits VkResult.splits prod.splits)

lemma reset_after_wait_split:
  "reset_after_wait waited log \<Longrightarrow> log = pre @ ResetFences k b # post \<Longrightarrow>
   k \<in> set waited \<or> WaitFences k True \<in> set pre"
proof (induction waited log arbitrary: pre rule: reset_after_wait.induct)
  case (1 waited)
  then show ?case by simp
next
  case (2 waited k' r cs)
  then show ?case by (cases pre) (auto split: if_splits)
next
  case (3 waited k' r cs)
  then show ?case by (cases pre) auto
qed (case_tac pre; auto)+

lemma AcquireSurface_fence_slot:
  "c \<in> set (calls_of (AcquireSurface env s)) \<Longrightarrow> c = ResetFences k b \<or> c = WaitFences k b \<Longrightarrow>
   k = (current_backbuffer_index s + 1) mod length (backbuffers s)"
  by (auto simp: acquire_defs split: acquire_splits)

lemma AcquireSurface_wait_failed:
  "\<not> WaitFences_result env \<Longrightarrow>
   (\<exists>s'. AcquireSurface env s =
          Inr ((ErrorSurfaceLost, None), s', calls_of (AcquireSurface env s))) \<and>
   (\<forall>c \<in> set (calls_of (AcquireSurface env s)). \<not> is_ResetFences c)"
  by (auto simp: acquire_defs split: acquire_splits)

lemma AcquireNextImageKHR_called:
  "AcquireNextImageKHR sc sem res idx \<in> set (calls_of (AcquireSurface env s)) \<Longrightarrow>
   IsValid s \<and> (\<exists>slot s0. GetNextBackbuffer s = (Some slot, s0)) \<and>
   WaitFences_result env \<and> ResetFences_result env \<and>
   res = AcquireNextImageKHR_result env \<and> idx = AcquireNextImageKHR_index env"
  by (auto simp: acquire_defs split: acquire_splits)

lemma AcquireSurface_not_success:
  "IsValid s \<Longrightarrow> GetNextBackbuffer s = (Some slot, s0) \<Longrightarrow>
   WaitFences_result env \<Longrightarrow> ResetFences_result env \<Longrightarrow>
   AcquireNextImageKHR_result env \<noteq> VK_SUCCESS \<Longrightarrow>
   \<exists>log. AcquireSurface env s =
     Inr ((if AcquireNextImageKHR_result env = VK_ERROR_OUT_OF_DATE_KHR
           then ErrorSurfaceOutOfDate else ErrorSurfaceLost, None), s0, log)"
  by (cases "AcquireNextImageKHR_result env") (simp_all add: AcquireSurface_def Let_def)

lemma AcquireSurface_bad_index:
  "IsValid s \<Longrightarrow> GetNextBackbuffer s = (Some slot, s0) \<Longrightarrow>
   WaitFences_result env \<Longrightarrow> ResetFences_result env \<Longrightarrow>
   AcquireNextImageKHR_result env = VK_SUCCESS \<Longrightarrow>
   \<not> unat (AcquireNextImageKHR_index env) < length (images s) \<Longrightarrow>
   \<exists>log. AcquireSurface env s = Inr ((ErrorSurfaceLost, None), s0, log)"
  by (auto simp: AcquireSurface_def GetNextBackbuffer_def Let_def split: if_splits)

lemma AcquireSurface_failed_frame:
  "AcquireSurface env s = Inr (r, s', log) \<Longrightarrow> fst r \<noteq> Success \<Longrightarrow>
   current_image_index s' = current_image_index s \<and> images s' = images s \<and>
   surfaces s' = surfaces s \<and> swapchain s' = swapchain s"
  by (auto simp: acquire_defs split: acquire_splits)

lemma Submit_present_target:
  "c \<in> set (calls_of (Submit env s)) \<Longrightarrow>
   (is_QueuePresentKHR c \<longrightarrow>
      (\<exists>ws r. c = QueuePresentKHR ws [swapchain s] [of_nat (current_image_index s)] r)) \<and>
   (\<forall>h cb a b acc l r. c = InsertImageMemoryBarrier h cb a b acc l r \<longrightarrow>
      h = image_handle (images s ! current_image_index s))"
  by (auto simp: submit_defs split: acquire_splits)

text \<open>
  When every step of \<^verbatim>\<open>AcquireSurface\<close> up to the end of the recording succeeds, the
  queue submission is made, once.
\<close>

lemma AcquireSurface_submission_made:
  "bb = backbuffers s ! ((current_backbuffer_index s + 1) mod length (backbuffers s)) \<Longrightarrow>
   IsValid s \<Longrightarrow> backbuffers s \<noteq> [] \<Longrightarrow> bb_valid bb \<Longrightarrow>
   WaitFences_result env \<Longrightarrow> ResetFences_result env \<Longrightarrow>
   AcquireNextImageKHR_result env = VK_SUCCESS \<Longrightarrow>
   unat (AcquireNextImageKHR_index env) < length (images s) \<Longrightarrow>
   image_valid (images s ! unat (AcquireNextImageKHR_index env)) \<Longrightarrow>
   usage_Begin_result env \<Longrightarrow> usage_barrier_result env \<Longrightarrow> usage_End_result env \<Longrightarrow>
   filter is_QueueSubmit (calls_of (AcquireSurface env s)) =
     [QueueSubmit [VK_PIPELINE_STAGE_COLOR_ATTACHMENT_OUTPUT_BIT] [usage_semaphore bb] []
        [usage_command_buffer bb] (usage_fence bb) (usage_QueueSubmit_result env)]"
  by (auto simp: acquire_defs split: option.splits)

text \<open>
  When every step of \<^verbatim>\<open>Submit\<close> up to the end of the recording succeeds, the queue
  submission is made, once; the present request follows exactly when the submission
  succeeded, and is then the last call.
\<close>

lemma Submit_submission_made:
  "bb = backbuffers s ! current_backbuffer_index s \<Longrightarrow>
   IsValid s \<Longrightarrow> current_image_index s < length (surfaces s) \<Longrightarrow>
   current_image_index s < length (images s) \<Longrightarrow>
   current_backbuffer_index s < length (backbuffers s) \<Longrightarrow>
   surfaces s ! current_image_index s = Some sk \<Longrightarrow>
   render_getRenderTargetHandle_result env \<Longrightarrow> render_Begin_result env \<Longrightarrow>
   render_barrier_result env \<Longrightarrow> render_End_result env \<Longrightarrow>
   (\<exists>ok s' log. Submit env s = Inr (ok, s', log) \<and>
      filter is_QueueSubmit log =
        [QueueSubmit [] [] [render_semaphore bb] [render_command_buffer bb] (render_fence bb)
           (render_QueueSubmit_result env)] \<and>
      filter is_QueuePresentKHR log =
        (if render_QueueSubmit_result env
         then [QueuePresentKHR [render_semaphore bb] [swapchain s]
                 [of_nat (current_image_index s)] (QueuePresentKHR_result env)]
         else []) \<and>
      (render_QueueSubmit_result env \<longrightarrow>
         last log = QueuePresentKHR [render_semaphore bb] [swapchain s]
                 [of_nat (current_image_index s)] (QueuePresentKHR_result env)) \<and>
      (ok \<longleftrightarrow> render_QueueSubmit_result env \<and> QueuePresentKHR_result env = VK_SUCCESS))"
  by (auto simp: submit_defs)

lemma Submit_calls:
  "bb = backbuffers s ! current_backbuffer_index s \<Longrightarrow>
   Submit env s = Inr (ok, s', log) \<Longrightarrow>
   (\<forall>c \<in> set log. is_QueueSubmit c \<longrightarrow>
      c = QueueSubmit [] [] [render_semaphore bb] [render_command_buffer bb] (render_fence bb)
            (render_QueueSubmit_result env)) \<and>
   (\<forall>c \<in> set log. is_QueuePresentKHR c \<longrightarrow>
      c = QueuePresentKHR [render_semaphore bb] [swapchain s]
            [of_nat (current_image_index s)] (QueuePresentKHR_result env)) \<and>
   length (filter is_QueueSubmit log) \<le> 1 \<and>
   length (filter is_QueuePresentKHR log) \<le> 1 \<and>
   ((\<exists>c \<in> set log. is_QueuePresentKHR c) \<longrightarrow>
      (\<exists>pre. log = pre @
         [QueueSubmit [] [] [render_semaphore bb] [render_command_buffer bb] (render_fence bb) True,
          QueuePresentKHR [render_semaphore bb] [swapchain s]
            [of_nat (current_image_index s)] (QueuePresentKHR_result env)]) \<and>
      (ok \<longleftrightarrow> QueuePresentKHR_result env = VK_SUCCESS)) \<and>
   (ok \<longrightarrow> (\<exists>c \<in> set log. is_QueuePresentKHR c))"
  apply (intro conjI)
       apply (auto simp: submit_defs split: acquire_splits)
  done

subsection \<open>The two methods on the concrete chain\<close>

lemma example_acquire_run:
  "AcquireSurface example_acquire example_chain =
     Inr ((Success, Some (SkSurface 103 (800, 600))), example_acquired,
          WaitFences 1 True # ResetFences 1 True # example_acquire_log)"
  by (simp add: AcquireSurface_def GetNextBackbuffer_def example_defs Let_def)

lemma example_wait_fails_run:
  "AcquireSurface example_acquire_wait_fails example_chain =
     Inr ((ErrorSurfaceLost, None), example_chain\<lparr>current_backbuffer_index := 1\<rparr>,
          [WaitFences 1 False])"
  by (simp add: AcquireSurface_def GetNextBackbuffer_def example_defs Let_def)

lemma example_answer_run:
  "r \<noteq> VK_SUCCESS \<Longrightarrow>
   AcquireSurface (example_acquire_answer r i) example_acquired =
     Inr ((if r = VK_ERROR_OUT_OF_DATE_KHR then ErrorSurfaceOutOfDate else ErrorSurfaceLost, None),
          example_acquired\<lparr>current_backbuffer_index := 2\<rparr>,
          [WaitFences 2 True, ResetFences 2 True, AcquireNextImageKHR 9 21 r i])"
  by (cases r) (simp_all add: AcquireSurface_def GetNextBackbuffer_def example_defs Let_def)

lemma example_bad_index_run:
  "AcquireSurface (example_acquire_answer VK_SUCCESS 3) example_acquired =
     Inr ((ErrorSurfaceLost, None),
          example_acquired\<lparr>current_backbuffer_index := 2\<rparr>,
          [WaitFences 2 True, ResetFences 2 True, AcquireNextImageKHR 9 21 VK_SUCCESS 3])"
  by (simp add: AcquireSurface_def GetNextBackbuffer_def example_defs Let_def)

lemma example_submit_run:
  "Submit example_submit example_acquired =
     Inr (True, example_acquired\<lparr>current_pipeline_stage := VK_PIPELINE_STAGE_BOTTOM_OF_PIPE_BIT\<rparr>,
          example_submit_log VK_SUCCESS)"
  by (simp add: Submit_def example_defs Let_def)

lemma example_submit_present_fails_run:
  "Submit example_submit_present_fails example_acquired =
     Inr (False, example_acquired\<lparr>current_pipeline_stage := VK_PIPELINE_STAGE_BOTTOM_OF_PIPE_BIT\<rparr>,
          example_submit_log VK_ERROR_OUT_OF_DATE_KHR)"
  by (simp add: Submit_def example_defs Let_def)

lemma example_submit_after_failure_run:
  "calls_of (Submit example_submit (example_acquired\<lparr>current_backbuffer_index := 2\<rparr>)) =
     [getRenderTargetHandle (SkSurface 103 (800, 600)) True,
      Begin 26 True,
      InsertImageMemoryBarrier 103 26 VK_PIPELINE_STAGE_COLOR_ATTACHMENT_OUTPUT_BIT
        VK_PIPELINE_STAGE_BOTTOM_OF_PIPE_BIT VK_ACCESS_MEMORY_READ_BIT
        VK_IMAGE_LAYOUT_PRESENT_SRC_KHR True,
      End 26 True,
      QueueSubmit [] [] [22] [26] 24 True,
      QueuePresentKHR [22] [9] [2] VK_SUCCESS]"
  by (simp add: Submit_def calls_of_def example_defs Let_def)

subsection \<open>The order of the calls on fences\<close>

text \<open>
  C1. Whenever the calls of one \<^verbatim>\<open>AcquireSurface\<close> contain a \<^verbatim>\<open>ResetFences\<close> on a
  slot, a \<^verbatim>\<open>WaitFences\<close> on the same slot that returned success comes before it, and the
  slot is the one the call selected. When \<^verbatim>\<open>WaitFences\<close> fails, the call returns
  \<^verbatim>\<open>ErrorSurfaceLost\<close> with no render target and its calls contain no
  \<^verbatim>\<open>ResetFences\<close>.
\<close>

theorem ResetFences_only_after_WaitFences:
  "(calls_of (AcquireSurface env s) = pre @ ResetFences k b # post \<longrightarrow>
      WaitFences k True \<in> set pre \<and>
      k = (current_backbuffer_index s + 1) mod length (backbuffers s)) \<and>
   (\<not> WaitFences_result env \<longrightarrow>
      (\<exists>s'. AcquireSurface env s =
             Inr ((ErrorSurfaceLost, None), s', calls_of (AcquireSurface env s))) \<and>
      (\<forall>c \<in> set (calls_of (AcquireSurface env s)). \<not> is_ResetFences c))"
proof (intro conjI impI)
  assume split: "calls_of (AcquireSurface env s) = pre @ ResetFences k b # post"
  from reset_after_wait_split [OF AcquireSurface_monitor split]
  show "WaitFences k True \<in> set pre" by simp
  have "ResetFences k b \<in> set (calls_of (AcquireSurface env s))"
    by (simp add: split)
  then show "k = (current_backbuffer_index s + 1) mod length (backbuffers s)"
    by (rule AcquireSurface_fence_slot) simp
next
  assume "\<not> WaitFences_result env"
  then show "\<exists>s'. AcquireSurface env s =
             Inr ((ErrorSurfaceLost, None), s', calls_of (AcquireSurface env s))"
    using AcquireSurface_wait_failed by blast
next
  assume "\<not> WaitFences_result env"
  then show "\<forall>c \<in> set (calls_of (AcquireSurface env s)). \<not> is_ResetFences c"
    using AcquireSurface_wait_failed by blast
qed

theorem ResetFences_only_after_WaitFences_witness:
  "calls_of (AcquireSurface example_acquire example_chain) =
     [WaitFences 1 True] @ ResetFences 1 True # example_acquire_log \<and>
   WaitFences 1 True \<in> set [WaitFences 1 True] \<and>
   (1::nat) = (current_backbuffer_index example_chain + 1) mod length (backbuffers example_chain) \<and>
   \<not> WaitFences_result example_acquire_wait_fails \<and>
   AcquireSurface example_acquire_wait_fails example_chain =
     Inr ((ErrorSurfaceLost, None), example_chain\<lparr>current_backbuffer_index := 1\<rparr>,
          [WaitFences 1 False]) \<and>
   \<not> is_ResetFences (WaitFences 1 False)"
proof -
  have run: "calls_of (AcquireSurface example_acquire example_chain) =
      [WaitFences 1 True] @ ResetFences 1 True # example_acquire_log"
    by (simp add: example_acquire_run calls_of_def)
  have fails: "\<not> WaitFences_result example_acquire_wait_fails"
    by (simp add: example_acquire_wait_fails_def)
  have slot: "(1::nat) =
      (current_backbuffer_index example_chain + 1) mod length (backbuffers example_chain)"
    by (simp add: example_chain_def)
  from ResetFences_only_after_WaitFences [of example_acquire example_chain "[WaitFences 1 True]"
      1 True example_acquire_log]
    ResetFences_only_after_WaitFences [of example_acquire_wait_fails example_chain "[]" 0 True "[]"]
    run fails slot
  show ?thesis
    by (simp add: example_wait_fails_run)
qed

subsection \<open>The submission of the acquisition\<close>

text \<open>
  C4. With \<open>bb\<close> the backbuffer of the slot that \<^verbatim>\<open>AcquireSurface\<close> selects: when the
  chain is valid, the slot is valid, the fences are waited for and reset, the platform
  hands back a valid image of the chain and the recording into the usage command buffer
  succeeds, \<^verbatim>\<open>AcquireSurface\<close> makes exactly one queue submission, and that submission
  waits on the usage semaphore of \<open>bb\<close> alone, signals no semaphore, submits the usage
  command buffer of \<open>bb\<close> and signals the usage fence of \<open>bb\<close>. Whatever the outcomes,
  no other queue submission is among the calls of \<^verbatim>\<open>AcquireSurface\<close>, and a call that
  returns \<^verbatim>\<open>Success\<close> has made that one submission and it succeeded.
\<close>

theorem acquire_side_QueueSubmit:
  "bb = backbuffers s ! ((current_backbuffer_index s + 1) mod length (backbuffers s)) \<Longrightarrow>
   (IsValid s \<and> backbuffers s \<noteq> [] \<and> bb_valid bb \<and>
    WaitFences_result env \<and> ResetFences_result env \<and>
    AcquireNextImageKHR_result env = VK_SUCCESS \<and>
    unat (AcquireNextImageKHR_index env) < length (images s) \<and>
    image_valid (images s ! unat (AcquireNextImageKHR_index env)) \<and>
    usage_Begin_result env \<and> usage_barrier_result env \<and> usage_End_result env \<longrightarrow>
      filter is_QueueSubmit (calls_of (AcquireSurface env s)) =
        [QueueSubmit [VK_PIPELINE_STAGE_COLOR_ATTACHMENT_OUTPUT_BIT] [usage_semaphore bb] []
           [usage_command_buffer bb] (usage_fence bb) (usage_QueueSubmit_result env)]) \<and>
   (\<forall>c \<in> set (calls_of (AcquireSurface env s)). is_QueueSubmit c \<longrightarrow>
      c = QueueSubmit [VK_PIPELINE_STAGE_COLOR_ATTACHMENT_OUTPUT_BIT] [usage_semaphore bb] []
            [usage_command_buffer bb] (usage_fence bb) (usage_QueueSubmit_result env)) \<and>
   (\<forall>sk s' log. AcquireSurface env s = Inr ((Success, sk), s', log) \<longrightarrow>
      filter is_QueueSubmit log =
        [QueueSubmit [VK_PIPELINE_STAGE_COLOR_ATTACHMENT_OUTPUT_BIT] [usage_semaphore bb] []
           [usage_command_buffer bb] (usage_fence bb) True])"
proof (intro conjI impI)
  assume slot: "bb = backbuffers s ! ((current_backbuffer_index s + 1) mod length (backbuffers s))"
  assume "IsValid s \<and> backbuffers s \<noteq> [] \<and> bb_valid bb \<and>
    WaitFences_result env \<and> ResetFences_result env \<and>
    AcquireNextImageKHR_result env = VK_SUCCESS \<and>
    unat (AcquireNextImageKHR_index env) < length (images s) \<and>
    image_valid (images s ! unat (AcquireNextImageKHR_index env)) \<and>
    usage_Begin_result env \<and> usage_barrier_result env \<and> usage_End_result env"
  with slot show "filter is_QueueSubmit (calls_of (AcquireSurface env s)) =
      [QueueSubmit [VK_PIPELINE_STAGE_COLOR_ATTACHMENT_OUTPUT_BIT] [usage_semaphore bb] []
         [usage_command_buffer bb] (usage_fence bb) (usage_QueueSubmit_result env)]"
    by (intro AcquireSurface_submission_made) simp_all
next
  assume slot: "bb = backbuffers s ! ((current_backbuffer_index s + 1) mod length (backbuffers s))"
  then show "\<forall>c \<in> set (calls_of (AcquireSurface env s)). is_QueueSubmit c \<longrightarrow>
      c = QueueSubmit [VK_PIPELINE_STAGE_COLOR_ATTACHMENT_OUTPUT_BIT] [usage_semaphore bb] []
            [usage_command_buffer bb] (usage_fence bb) (usage_QueueSubmit_result env)"
    by (auto simp: acquire_defs split: acquire_splits)
next
  assume slot: "bb = backbuffers s ! ((current_backbuffer_index s + 1) mod length (backbuffers s))"
  then show "\<forall>sk s' log. AcquireSurface env s = Inr ((Success, sk), s', log) \<longrightarrow>
      filter is_QueueSubmit log =
        [QueueSubmit [VK_PIPELINE_STAGE_COLOR_ATTACHMENT_OUTPUT_BIT] [usage_semaphore bb] []
           [usage_command_buffer bb] (usage_fence bb) True]"
    by (auto simp: acquire_defs split: acquire_splits)
qed

theorem acquire_side_QueueSubmit_witness:
  "example_backbuffer 1 =
     backbuffers example_chain !
       ((current_backbuffer_index example_chain + 1) mod length (backbuffers example_chain)) \<and>
   (IsValid example_chain \<and> backbuffers example_chain \<noteq> [] \<and> bb_valid (example_backbuffer 1) \<and>
    WaitFences_result example_acquire \<and> ResetFences_result example_acquire \<and>
    AcquireNextImageKHR_result example_acquire = VK_SUCCESS \<and>
    unat (AcquireNextImageKHR_index example_acquire) < length (images example_chain) \<and>
    image_valid (images example_chain ! unat (AcquireNextImageKHR_index example_acquire)) \<and>
    usage_Begin_result example_acquire \<and> usage_barrier_result example_acquire \<and>
    usage_End_result example_acquire) \<and>
   filter is_QueueSubmit (calls_of (AcquireSurface example_acquire example_chain)) =
     [QueueSubmit [VK_PIPELINE_STAGE_COLOR_ATTACHMENT_OUTPUT_BIT]
        [usage_semaphore (example_backbuffer 1)] []
        [usage_command_buffer (example_backbuffer 1)] (usage_fence (example_backbuffer 1))
        (usage_QueueSubmit_result example_acquire)] \<and>
   AcquireSurface example_acquire example_chain =
     Inr ((Success, Some (SkSurface 103 (800, 600))), example_acquired,
          WaitFences 1 True # ResetFences 1 True # example_acquire_log) \<and>
   QueueSubmit [VK_PIPELINE_STAGE_COLOR_ATTACHMENT_OUTPUT_BIT] [11] [] [15] 13 True
     \<in> set (calls_of (AcquireSurface example_acquire example_chain)) \<and>
   filter is_QueueSubmit (WaitFences 1 True # ResetFences 1 True # example_acquire_log) =
     [QueueSubmit [VK_PIPELINE_STAGE_COLOR_ATTACHMENT_OUTPUT_BIT]
        [usage_semaphore (example_backbuffer 1)] []
        [usage_command_buffer (example_backbuffer 1)] (usage_fence (example_backbuffer 1)) True]"
proof -
  have slot: "example_backbuffer 1 =
     backbuffers example_chain !
       ((current_backbuffer_index example_chain + 1) mod length (backbuffers example_chain))"
    by (simp add: example_chain_def)
  have steps: "IsValid example_chain \<and> backbuffers example_chain \<noteq> [] \<and>
    bb_valid (example_backbuffer 1) \<and>
    WaitFences_result example_acquire \<and> ResetFences_result example_acquire \<and>
    AcquireNextImageKHR_result example_acquire = VK_SUCCESS \<and>
    unat (AcquireNextImageKHR_index example_acquire) < length (images example_chain) \<and>
    image_valid (images example_chain ! unat (AcquireNextImageKHR_index example_acquire)) \<and>
    usage_Begin_result example_acquire \<and> usage_barrier_result example_acquire \<and>
    usage_End_result example_acquire"
    by (simp add: example_chain_def example_acquire_def example_backbuffer_def IsValid_def)
  note at_example = acquire_side_QueueSubmit [OF slot, of example_acquire]
  have made: "filter is_QueueSubmit (calls_of (AcquireSurface example_acquire example_chain)) =
     [QueueSubmit [VK_PIPELINE_STAGE_COLOR_ATTACHMENT_OUTPUT_BIT]
        [usage_semaphore (example_backbuffer 1)] []
        [usage_command_buffer (example_backbuffer 1)] (usage_fence (example_backbuffer 1))
        (usage_QueueSubmit_result example_acquire)]"
    by (rule at_example [THEN conjunct1, rule_format, OF steps])
  have member: "QueueSubmit [VK_PIPELINE_STAGE_COLOR_ATTACHMENT_OUTPUT_BIT] [11] [] [15] 13 True
      \<in> set (calls_of (AcquireSurface example_acquire example_chain))"
    by (simp add: example_acquire_run calls_of_def example_acquire_log_def)
  have once: "filter is_QueueSubmit
      (WaitFences 1 True # ResetFences 1 True # example_acquire_log) =
     [QueueSubmit [VK_PIPELINE_STAGE_COLOR_ATTACHMENT_OUTPUT_BIT]
        [usage_semaphore (example_backbuffer 1)] []
        [usage_command_buffer (example_backbuffer 1)] (usage_fence (example_backbuffer 1)) True]"
    by (rule at_example [THEN conjunct2, THEN conjunct2, rule_format, OF example_acquire_run])
  show ?thesis
    by (intro conjI slot steps made example_acquire_run member once)
qed

subsection \<open>The outcome of the acquisition\<close>

text \<open>
  C6. When \<^verbatim>\<open>AcquireSurface\<close> has asked the platform for the next image and the
  platform answered with the status \<open>res\<close> and the index \<open>idx\<close>: the status
  \<^verbatim>\<open>VK_ERROR_OUT_OF_DATE_KHR\<close> gives \<^verbatim>\<open>ErrorSurfaceOutOfDate\<close>, the status
  \<^verbatim>\<open>VK_ERROR_SURFACE_LOST_KHR\<close> gives \<^verbatim>\<open>ErrorSurfaceLost\<close>, every other status that
  is not success gives \<^verbatim>\<open>ErrorSurfaceLost\<close>, and success with an index that is not
  below the number of images gives \<^verbatim>\<open>ErrorSurfaceLost\<close>; no render target is returned
  in any of these cases.
\<close>

theorem acquire_status_mapping:
  "AcquireNextImageKHR sc sem res idx \<in> set (calls_of (AcquireSurface env s)) \<Longrightarrow>
   (res = VK_ERROR_OUT_OF_DATE_KHR \<longrightarrow>
      (\<exists>s' log. AcquireSurface env s = Inr ((ErrorSurfaceOutOfDate, None), s', log))) \<and>
   (res = VK_ERROR_SURFACE_LOST_KHR \<longrightarrow>
      (\<exists>s' log. AcquireSurface env s = Inr ((ErrorSurfaceLost, None), s', log))) \<and>
   (res \<noteq> VK_SUCCESS \<and> res \<noteq> VK_ERROR_OUT_OF_DATE_KHR \<longrightarrow>
      (\<exists>s' log. AcquireSurface env s = Inr ((ErrorSurfaceLost, None), s', log))) \<and>
   (res = VK_SUCCESS \<and> \<not> unat idx < length (images s) \<longrightarrow>
      (\<exists>s' log. AcquireSurface env s = Inr ((ErrorSurfaceLost, None), s', log)))"
proof -
  assume called: "AcquireNextImageKHR sc sem res idx \<in> set (calls_of (AcquireSurface env s))"
  from AcquireNextImageKHR_called [OF called] obtain slot s0 where
    reach: "IsValid s" "GetNextBackbuffer s = (Some slot, s0)"
      "WaitFences_result env" "ResetFences_result env"
    and res: "res = AcquireNextImageKHR_result env"
    and idx: "idx = AcquireNextImageKHR_index env"
    by blast
  have failure: "res \<noteq> VK_SUCCESS \<Longrightarrow>
      \<exists>log. AcquireSurface env s =
        Inr ((if res = VK_ERROR_OUT_OF_DATE_KHR then ErrorSurfaceOutOfDate else ErrorSurfaceLost,
              None), s0, log)"
    using AcquireSurface_not_success [OF reach] by (simp add: res)
  have range: "res = VK_SUCCESS \<Longrightarrow> \<not> unat idx < length (images s) \<Longrightarrow>
      \<exists>log. AcquireSurface env s = Inr ((ErrorSurfaceLost, None), s0, log)"
    using AcquireSurface_bad_index [OF reach] by (simp add: res idx)
  show ?thesis
  proof (intro conjI impI)
    assume "res = VK_ERROR_OUT_OF_DATE_KHR"
    with failure show "\<exists>s' log. AcquireSurface env s = Inr ((ErrorSurfaceOutOfDate, None), s', log)"
      by auto
  next
    assume "res = VK_ERROR_SURFACE_LOST_KHR"
    with failure show "\<exists>s' log. AcquireSurface env s = Inr ((ErrorSurfaceLost, None), s', log)"
      by auto
  next
    assume "res \<noteq> VK_SUCCESS \<and> res \<noteq> VK_ERROR_OUT_OF_DATE_KHR"
    with failure show "\<exists>s' log. AcquireSurface env s = Inr ((ErrorSurfaceLost, None), s', log)"
      by auto
  next
    assume "res = VK_SUCCESS \<and> \<not> unat idx < length (images s)"
    with range show "\<exists>s' log. AcquireSurface env s = Inr ((ErrorSurfaceLost, None), s', log)"
      by auto
  qed
qed

theorem acquire_status_mapping_witness:
  "AcquireNextImageKHR 9 21 VK_ERROR_OUT_OF_DATE_KHR 0
     \<in> set (calls_of (AcquireSurface (example_acquire_answer VK_ERROR_OUT_OF_DATE_KHR 0)
                        example_acquired)) \<and>
   (\<exists>s' log. AcquireSurface (example_acquire_answer VK_ERROR_OUT_OF_DATE_KHR 0) example_acquired =
      Inr ((ErrorSurfaceOutOfDate, None), s', log)) \<and>
   AcquireNextImageKHR 9 21 VK_ERROR_SURFACE_LOST_KHR 0
     \<in> set (calls_of (AcquireSurface (example_acquire_answer VK_ERROR_SURFACE_LOST_KHR 0)
                        example_acquired)) \<and>
   (\<exists>s' log. AcquireSurface (example_acquire_answer VK_ERROR_SURFACE_LOST_KHR 0) example_acquired =
      Inr ((ErrorSurfaceLost, None), s', log)) \<and>
   AcquireNextImageKHR 9 21 (VK_RESULT_OTHER 2) 0
     \<in> set (calls_of (AcquireSurface (example_acquire_answer (VK_RESULT_OTHER 2) 0)
                        example_acquired)) \<and>
   (\<exists>s' log. AcquireSurface (example_acquire_answer (VK_RESULT_OTHER 2) 0) example_acquired =
      Inr ((ErrorSurfaceLost, None), s', log)) \<and>
   AcquireNextImageKHR 9 21 VK_SUCCESS 3
     \<in> set (calls_of (AcquireSurface (example_acquire_answer VK_SUCCESS 3) example_acquired)) \<and>
   \<not> unat (3 :: uint32_t) < length (images example_acquired) \<and>
   (\<exists>s' log. AcquireSurface (example_acquire_answer VK_SUCCESS 3) example_acquired =
      Inr ((ErrorSurfaceLost, None), s', log))"
proof -
  have called:
    "r \<noteq> VK_SUCCESS \<Longrightarrow>
     AcquireNextImageKHR 9 21 r 0
       \<in> set (calls_of (AcquireSurface (example_acquire_answer r 0) example_acquired))" for r
    by (simp add: example_answer_run calls_of_def)
  have called_3:
    "AcquireNextImageKHR 9 21 VK_SUCCESS 3
       \<in> set (calls_of (AcquireSurface (example_acquire_answer VK_SUCCESS 3) example_acquired))"
    by (simp add: example_bad_index_run calls_of_def)
  have size: "\<not> unat (3 :: uint32_t) < length (images example_acquired)"
    by (simp add: example_acquired_def example_chain_def)
  from acquire_status_mapping [OF called [of VK_ERROR_OUT_OF_DATE_KHR]]
    acquire_status_mapping [OF called [of VK_ERROR_SURFACE_LOST_KHR]]
    acquire_status_mapping [OF called [of "VK_RESULT_OTHER 2"]]
    acquire_status_mapping [OF called_3]
    called [of VK_ERROR_OUT_OF_DATE_KHR] called [of VK_ERROR_SURFACE_LOST_KHR]
    called [of "VK_RESULT_OTHER 2"] called_3 size
  show ?thesis by simp
qed

subsection \<open>The current image after an acquisition that fails\<close>

text \<open>
  C10. An \<^verbatim>\<open>AcquireSurface\<close> that returns anything but \<^verbatim>\<open>Success\<close> leaves
  \<^verbatim>\<open>current_image_index_\<close> as it was, and whatever a following \<^verbatim>\<open>Submit\<close> calls, its
  barrier is on the image at that index and its present request names that index (cast to
  32 bits) and no other.
\<close>

theorem failed_acquire_keeps_current_image:
  "AcquireSurface env s = Inr (r, s', log) \<Longrightarrow> fst r \<noteq> Success \<Longrightarrow>
   current_image_index s' = current_image_index s \<and>
   (\<forall>c \<in> set (calls_of (Submit env' s')).
      (is_QueuePresentKHR c \<longrightarrow>
         (\<exists>ws r. c = QueuePresentKHR ws [swapchain s] [of_nat (current_image_index s)] r)) \<and>
      (\<forall>h cb a b acc l r. c = InsertImageMemoryBarrier h cb a b acc l r \<longrightarrow>
         h = image_handle (images s ! current_image_index s)))"
  using AcquireSurface_failed_frame [of env s r s' log] Submit_present_target [of _ env' s']
  by simp

theorem failed_acquire_keeps_current_image_witness:
  "AcquireSurface (example_acquire_answer VK_ERROR_OUT_OF_DATE_KHR 0) example_acquired =
     Inr ((ErrorSurfaceOutOfDate, None), example_acquired\<lparr>current_backbuffer_index := 2\<rparr>,
          [WaitFences 2 True, ResetFences 2 True,
           AcquireNextImageKHR 9 21 VK_ERROR_OUT_OF_DATE_KHR 0]) \<and>
   fst (ErrorSurfaceOutOfDate, None :: SkSurface option) \<noteq> Success \<and>
   current_image_index (example_acquired\<lparr>current_backbuffer_index := 2\<rparr>) = 2 \<and>
   current_image_index example_acquired = 2 \<and>
   QueuePresentKHR [22] [9] [2] VK_SUCCESS
     \<in> set (calls_of (Submit example_submit (example_acquired\<lparr>current_backbuffer_index := 2\<rparr>)))"
proof -
  have run:
    "AcquireSurface (example_acquire_answer VK_ERROR_OUT_OF_DATE_KHR 0) example_acquired =
       Inr ((ErrorSurfaceOutOfDate, None), example_acquired\<lparr>current_backbuffer_index := 2\<rparr>,
            [WaitFences 2 True, ResetFences 2 True,
             AcquireNextImageKHR 9 21 VK_ERROR_OUT_OF_DATE_KHR 0])"
    by (simp add: example_answer_run)
  have failed: "fst (ErrorSurfaceOutOfDate, None :: SkSurface option) \<noteq> Success"
    by simp
  have present: "QueuePresentKHR [22] [9] [2] VK_SUCCESS
      \<in> set (calls_of (Submit example_submit (example_acquired\<lparr>current_backbuffer_index := 2\<rparr>)))"
    by (simp add: example_submit_after_failure_run)
  have before: "current_image_index example_acquired = 2"
    by (simp add: example_acquired_def example_chain_def)
  from failed_acquire_keeps_current_image [OF run failed, of example_submit]
    run failed present before
  show ?thesis by simp
qed

subsection \<open>The submission and the present request of \<^verbatim>\<open>Submit\<close>\<close>

text \<open>
  C5. With \<open>bb\<close> the backbuffer of the current slot: when the chain is valid, the
  current indices are inside the vectors, the surface is not null and every step up to
  the end of the recording into the render command buffer succeeds, \<^verbatim>\<open>Submit\<close> makes
  exactly one queue submission, which waits on no semaphore, signals the render
  semaphore of \<open>bb\<close> alone, submits its render command buffer and signals its render
  fence; when that submission succeeds, exactly one present request follows as the last
  call, waiting on that render semaphore alone and naming the one index
  \<^verbatim>\<open>current_image_index_\<close> (cast to 32 bits, which on a chain that satisfies the
  invariant changes nothing); and \<^verbatim>\<open>Submit\<close> returns true exactly when the submission
  succeeded and the present request returned success. Whatever the outcomes, a
  \<^verbatim>\<open>Submit\<close> that returns has made no other queue submission and no other present
  request, there is at most one of each, a present request is preceded by the queue
  submission, and any status of it but success makes \<^verbatim>\<open>Submit\<close> return false.
\<close>

theorem submit_side_calls:
  "bb = backbuffers s ! current_backbuffer_index s \<Longrightarrow>
   (IsValid s \<and> current_image_index s < length (surfaces s) \<and>
    current_image_index s < length (images s) \<and>
    current_backbuffer_index s < length (backbuffers s) \<and>
    surfaces s ! current_image_index s \<noteq> None \<and>
    render_getRenderTargetHandle_result env \<and> render_Begin_result env \<and>
    render_barrier_result env \<and> render_End_result env \<longrightarrow>
      (\<exists>ok s' log. Submit env s = Inr (ok, s', log) \<and>
         filter is_QueueSubmit log =
           [QueueSubmit [] [] [render_semaphore bb] [render_command_buffer bb] (render_fence bb)
              (render_QueueSubmit_result env)] \<and>
         filter is_QueuePresentKHR log =
           (if render_QueueSubmit_result env
            then [QueuePresentKHR [render_semaphore bb] [swapchain s]
                    [of_nat (current_image_index s)] (QueuePresentKHR_result env)]
            else []) \<and>
         (render_QueueSubmit_result env \<longrightarrow>
            last log = QueuePresentKHR [render_semaphore bb] [swapchain s]
                    [of_nat (current_image_index s)] (QueuePresentKHR_result env)) \<and>
         (ok \<longleftrightarrow> render_QueueSubmit_result env \<and> QueuePresentKHR_result env = VK_SUCCESS))) \<and>
   (\<forall>ok s' log. Submit env s = Inr (ok, s', log) \<longrightarrow>
      (\<forall>c \<in> set log. is_QueueSubmit c \<longrightarrow>
         c = QueueSubmit [] [] [render_semaphore bb] [render_command_buffer bb] (render_fence bb)
               (render_QueueSubmit_result env)) \<and>
      (\<forall>c \<in> set log. is_QueuePresentKHR c \<longrightarrow>
         c = QueuePresentKHR [render_semaphore bb] [swapchain s]
               [of_nat (current_image_index s)] (QueuePresentKHR_result env)) \<and>
      length (filter is_QueueSubmit log) \<le> 1 \<and>
      length (filter is_QueuePresentKHR log) \<le> 1 \<and>
      ((\<exists>c \<in> set log. is_QueuePresentKHR c) \<longrightarrow>
         (\<exists>pre. log = pre @
            [QueueSubmit [] [] [render_semaphore bb] [render_command_buffer bb] (render_fence bb)
               True,
             QueuePresentKHR [render_semaphore bb] [swapchain s]
               [of_nat (current_image_index s)] (QueuePresentKHR_result env)]) \<and>
         (ok \<longleftrightarrow> QueuePresentKHR_result env = VK_SUCCESS)) \<and>
      (ok \<longrightarrow> (\<exists>c \<in> set log. is_QueuePresentKHR c))) \<and>
   (chain_inv s \<and> IsValid s \<longrightarrow>
      unat (of_nat (current_image_index s) :: uint32_t) = current_image_index s)"
proof (intro conjI)
  assume slot: "bb = backbuffers s ! current_backbuffer_index s"
  show "IsValid s \<and> current_image_index s < length (surfaces s) \<and>
    current_image_index s < length (images s) \<and>
    current_backbuffer_index s < length (backbuffers s) \<and>
    surfaces s ! current_image_index s \<noteq> None \<and>
    render_getRenderTargetHandle_result env \<and> render_Begin_result env \<and>
    render_barrier_result env \<and> render_End_result env \<longrightarrow>
      (\<exists>ok s' log. Submit env s = Inr (ok, s', log) \<and>
         filter is_QueueSubmit log =
           [QueueSubmit [] [] [render_semaphore bb] [render_command_buffer bb] (render_fence bb)
              (render_QueueSubmit_result env)] \<and>
         filter is_QueuePresentKHR log =
           (if render_QueueSubmit_result env
            then [QueuePresentKHR [render_semaphore bb] [swapchain s]
                    [of_nat (current_image_index s)] (QueuePresentKHR_result env)]
            else []) \<and>
         (render_QueueSubmit_result env \<longrightarrow>
            last log = QueuePresentKHR [render_semaphore bb] [swapchain s]
                    [of_nat (current_image_index s)] (QueuePresentKHR_result env)) \<and>
         (ok \<longleftrightarrow> render_QueueSubmit_result env \<and> QueuePresentKHR_result env = VK_SUCCESS))"
  proof
    assume steps: "IsValid s \<and> current_image_index s < length (surfaces s) \<and>
      current_image_index s < length (images s) \<and>
      current_backbuffer_index s < length (backbuffers s) \<and>
      surfaces s ! current_image_index s \<noteq> None \<and>
      render_getRenderTargetHandle_result env \<and> render_Begin_result env \<and>
      render_barrier_result env \<and> render_End_result env"
    then obtain sk where "surfaces s ! current_image_index s = Some sk"
      by auto
    with slot steps show "\<exists>ok s' log. Submit env s = Inr (ok, s', log) \<and>
         filter is_QueueSubmit log =
           [QueueSubmit [] [] [render_semaphore bb] [render_command_buffer bb] (render_fence bb)
              (render_QueueSubmit_result env)] \<and>
         filter is_QueuePresentKHR log =
           (if render_QueueSubmit_result env
            then [QueuePresentKHR [render_semaphore bb] [swapchain s]
                    [of_nat (current_image_index s)] (QueuePresentKHR_result env)]
            else []) \<and>
         (render_QueueSubmit_result env \<longrightarrow>
            last log = QueuePresentKHR [render_semaphore bb] [swapchain s]
                    [of_nat (current_image_index s)] (QueuePresentKHR_result env)) \<and>
         (ok \<longleftrightarrow> render_QueueSubmit_result env \<and> QueuePresentKHR_result env = VK_SUCCESS)"
      by (intro Submit_submission_made [of bb s sk env]) simp_all
  qed
  from slot show "\<forall>ok s' log. Submit env s = Inr (ok, s', log) \<longrightarrow>
      (\<forall>c \<in> set log. is_QueueSubmit c \<longrightarrow>
         c = QueueSubmit [] [] [render_semaphore bb] [render_command_buffer bb] (render_fence bb)
               (render_QueueSubmit_result env)) \<and>
      (\<forall>c \<in> set log. is_QueuePresentKHR c \<longrightarrow>
         c = QueuePresentKHR [render_semaphore bb] [swapchain s]
               [of_nat (current_image_index s)] (QueuePresentKHR_result env)) \<and>
      length (filter is_QueueSubmit log) \<le> 1 \<and>
      length (filter is_QueuePresentKHR log) \<le> 1 \<and>
      ((\<exists>c \<in> set log. is_QueuePresentKHR c) \<longrightarrow>
         (\<exists>pre. log = pre @
            [QueueSubmit [] [] [render_semaphore bb] [render_command_buffer bb] (render_fence bb)
               True,
             QueuePresentKHR [render_semaphore bb] [swapchain s]
               [of_nat (current_image_index s)] (QueuePresentKHR_result env)]) \<and>
         (ok \<longleftrightarrow> QueuePresentKHR_result env = VK_SUCCESS)) \<and>
      (ok \<longrightarrow> (\<exists>c \<in> set log. is_QueuePresentKHR c))"
    using Submit_calls [of bb s env] by blast
  show "chain_inv s \<and> IsValid s \<longrightarrow>
      unat (of_nat (current_image_index s) :: uint32_t) = current_image_index s"
    by (auto simp: chain_inv_def unsigned_of_nat take_bit_nat_eq_self)
qed

theorem submit_side_calls_witness:
  "example_backbuffer 1 = backbuffers example_acquired ! current_backbuffer_index example_acquired \<and>
   (IsValid example_acquired \<and>
    current_image_index example_acquired < length (surfaces example_acquired) \<and>
    current_image_index example_acquired < length (images example_acquired) \<and>
    current_backbuffer_index example_acquired < length (backbuffers example_acquired) \<and>
    surfaces example_acquired ! current_image_index example_acquired \<noteq> None \<and>
    render_getRenderTargetHandle_result example_submit \<and> render_Begin_result example_submit \<and>
    render_barrier_result example_submit \<and> render_End_result example_submit) \<and>
   render_QueueSubmit_result example_submit \<and>
   Submit example_submit example_acquired =
     Inr (True, example_acquired\<lparr>current_pipeline_stage := VK_PIPELINE_STAGE_BOTTOM_OF_PIPE_BIT\<rparr>,
          example_submit_log VK_SUCCESS) \<and>
   filter is_QueueSubmit (example_submit_log VK_SUCCESS) = [QueueSubmit [] [] [12] [16] 14 True] \<and>
   filter is_QueuePresentKHR (example_submit_log VK_SUCCESS) =
     [QueuePresentKHR [12] [9] [2] VK_SUCCESS] \<and>
   last (example_submit_log VK_SUCCESS) = QueuePresentKHR [12] [9] [2] VK_SUCCESS \<and>
   Submit example_submit_present_fails example_acquired =
     Inr (False, example_acquired\<lparr>current_pipeline_stage := VK_PIPELINE_STAGE_BOTTOM_OF_PIPE_BIT\<rparr>,
          example_submit_log VK_ERROR_OUT_OF_DATE_KHR) \<and>
   QueuePresentKHR [12] [9] [2] VK_ERROR_OUT_OF_DATE_KHR
     \<in> set (example_submit_log VK_ERROR_OUT_OF_DATE_KHR) \<and>
   length (filter is_QueuePresentKHR (example_submit_log VK_ERROR_OUT_OF_DATE_KHR)) \<le> 1 \<and>
   chain_inv example_acquired \<and>
   unat (of_nat (current_image_index example_acquired) :: uint32_t) = 2"
proof -
  have slot: "example_backbuffer 1 =
      backbuffers example_acquired ! current_backbuffer_index example_acquired"
    by (simp add: example_acquired_def example_chain_def)
  have steps: "IsValid example_acquired \<and>
    current_image_index example_acquired < length (surfaces example_acquired) \<and>
    current_image_index example_acquired < length (images example_acquired) \<and>
    current_backbuffer_index example_acquired < length (backbuffers example_acquired) \<and>
    surfaces example_acquired ! current_image_index example_acquired \<noteq> None \<and>
    render_getRenderTargetHandle_result example_submit \<and> render_Begin_result example_submit \<and>
    render_barrier_result example_submit \<and> render_End_result example_submit"
    by (simp add: example_acquired_def example_chain_def example_submit_def IsValid_def)
  have submitted: "render_QueueSubmit_result example_submit"
    by (simp add: example_submit_def)
  have inv: "chain_inv example_acquired"
    by (simp add: chain_inv_def example_acquired_def example_chain_def IsValid_def)
  have handles: "render_semaphore (example_backbuffer 1) = 12"
    "render_command_buffer (example_backbuffer 1) = 16"
    "render_fence (example_backbuffer 1) = 14"
    "swapchain example_acquired = 9"
    "(of_nat (current_image_index example_acquired) :: uint32_t) = 2"
    "QueuePresentKHR_result example_submit = VK_SUCCESS"
    by (simp_all add: example_backbuffer_def example_acquired_def example_chain_def
        example_submit_def)
  note at_example = submit_side_calls [OF slot, of example_submit]
  note at_failure = submit_side_calls [OF slot, of example_submit_present_fails]
  from at_example [THEN conjunct1, rule_format, OF steps] example_submit_run submitted handles
  have made: "filter is_QueueSubmit (example_submit_log VK_SUCCESS) =
      [QueueSubmit [] [] [12] [16] 14 True] \<and>
    filter is_QueuePresentKHR (example_submit_log VK_SUCCESS) =
      [QueuePresentKHR [12] [9] [2] VK_SUCCESS] \<and>
    last (example_submit_log VK_SUCCESS) = QueuePresentKHR [12] [9] [2] VK_SUCCESS"
    by auto
  have refused: "QueuePresentKHR [12] [9] [2] VK_ERROR_OUT_OF_DATE_KHR
      \<in> set (example_submit_log VK_ERROR_OUT_OF_DATE_KHR)"
    by (simp add: example_submit_log_def)
  from at_failure [THEN conjunct2, THEN conjunct1, rule_format,
      OF example_submit_present_fails_run]
  have once: "length (filter is_QueuePresentKHR (example_submit_log VK_ERROR_OUT_OF_DATE_KHR)) \<le> 1"
    by blast
  from at_example [THEN conjunct2, THEN conjunct2] inv steps handles
  have index: "unat (of_nat (current_image_index example_acquired) :: uint32_t) = 2"
    by simp
  show ?thesis
    by (intro conjI slot steps submitted example_submit_run made [THEN conjunct1]
        made [THEN conjunct2, THEN conjunct1] made [THEN conjunct2, THEN conjunct2]
        example_submit_present_fails_run refused once inv index)
qed

subsection \<open>Facts about the constructor\<close>

lemma populate_frame:
  "populate env ctx sz imgs s = (ok, s') \<Longrightarrow>
   current_image_index s' = current_image_index s \<and>
   current_backbuffer_index s' = current_backbuffer_index s \<and>
   valid s' = valid s"
proof (induction imgs arbitrary: s)
  case Nil
  then show ?case by simp
next
  case (Cons img imgs)
  then show ?case
    by (fastforce simp: Let_def split: if_splits)
qed

lemma populate_sizes:
  "populate env ctx sz imgs s = (True, s') \<Longrightarrow>
   length (backbuffers s') = length (backbuffers s) + length imgs \<and>
   length (images s') = length (images s) + length imgs \<and>
   length (surfaces s') = length (surfaces s) + length imgs \<and>
   (None \<notin> set (surfaces s) \<longrightarrow> None \<notin> set (surfaces s'))"
proof (induction imgs arbitrary: s)
  case Nil
  then show ?case by simp
next
  case (Cons img imgs)
  then show ?case
    by (fastforce simp: Let_def split: if_splits)
qed

lemma length_GetImages:
  "length (GetImages env) =
     (if fst (GetSwapchainImagesKHR_count env) = VK_SUCCESS \<and>
         fst (GetSwapchainImagesKHR_fill env) = VK_SUCCESS
      then unat (snd (GetSwapchainImagesKHR_count env)) else 0)"
  by (auto simp: GetImages_def Let_def split: prod.splits)

lemma CreateSwapchainImages_sizes:
  "CreateSwapchainImages env ctx s = (True, s') \<Longrightarrow>
   backbuffers s = [] \<and> images s = [] \<and> surfaces s = [] \<longrightarrow>
     length (backbuffers s') = length (GetImages env) \<and>
     length (images s') = length (GetImages env) \<and>
     length (surfaces s') = length (GetImages env) \<and>
     None \<notin> set (surfaces s') \<and> GetImages env \<noteq> []"
proof -
  assume call: "CreateSwapchainImages env ctx s = (True, s')"
  then have nonempty: "GetImages env \<noteq> []"
    and run: "populate env ctx (GetSize s) (GetImages env) s = (True, s')"
    by (auto simp: CreateSwapchainImages_def Let_def split: if_splits)
  from populate_sizes [OF run] nonempty show ?thesis by simp
qed

lemma CreateSwapchainImages_frame:
  "CreateSwapchainImages env ctx s = (ok, s') \<Longrightarrow>
   current_image_index s' = current_image_index s \<and>
   current_backbuffer_index s' = current_backbuffer_index s \<and>
   valid s' = valid s"
  by (auto simp: CreateSwapchainImages_def Let_def dest: populate_frame split: if_splits)

lemma construct_current_image_index:
  "current_image_index (fst (construct env ctx old)) = 0"
  by (cases "snd (GetSurfaceCapabilities env)"; cases "snd (ChooseSurfaceFormat env)")
     (auto simp: construct_def Let_def initial_swapchain_def
      dest: CreateSwapchainImages_frame split: if_splits prod.splits)

text \<open>What holds of a chain that the constructor marks valid.\<close>

lemma construct_sizes:
  "IsValid (fst (construct env ctx old)) \<Longrightarrow>
   length (backbuffers (fst (construct env ctx old))) = length (GetImages env) \<and>
   length (images (fst (construct env ctx old))) = length (GetImages env) \<and>
   length (surfaces (fst (construct env ctx old))) = length (GetImages env) \<and>
   None \<notin> set (surfaces (fst (construct env ctx old))) \<and>
   current_backbuffer_index (fst (construct env ctx old)) = 0 \<and>
   GetImages env \<noteq> []"
  by (cases "snd (GetSurfaceCapabilities env)"; cases "snd (ChooseSurfaceFormat env)")
     (auto simp: construct_def Let_def IsValid_def initial_swapchain_def
      dest: CreateSwapchainImages_frame CreateSwapchainImages_sizes
      split: if_splits prod.splits)

text \<open>
  The return at the present-mode step is taken when \<^verbatim>\<open>ChoosePresentMode\<close> returns
  false: then no swapchain is asked for and the chain is invalid.
\<close>

lemma construct_present_mode_failed:
  "\<not> fst (ChoosePresentMode env) \<Longrightarrow>
   \<not> IsValid (fst (construct env ctx old)) \<and> snd (construct env ctx old) = []"
  by (cases "snd (GetSurfaceCapabilities env)"; cases "snd (ChooseSurfaceFormat env)")
     (auto simp: construct_def Let_def IsValid_def initial_swapchain_def)

lemma construct_log:
  "c \<in> set (snd (construct env ctx old)) \<Longrightarrow>
   \<exists>ci. c = CreateSwapchainKHR ci (fst (CreateSwapchainKHR_result env)) \<and>
        ci_presentMode ci =
          (case snd (ChoosePresentMode env) of None \<Rightarrow> VK_PRESENT_MODE_FIFO_KHR | Some m \<Rightarrow> m)"
  by (auto simp: construct_def Let_def split: if_splits prod.splits)

lemma construct_valid_log:
  "IsValid (fst (construct env ctx old)) \<Longrightarrow>
   fst (ChoosePresentMode env) \<and>
   (\<exists>ci. snd (construct env ctx old) = [CreateSwapchainKHR ci VK_SUCCESS])"
  by (cases "snd (GetSurfaceCapabilities env)"; cases "snd (ChooseSurfaceFormat env)")
     (auto simp: construct_def Let_def IsValid_def initial_swapchain_def
      dest: CreateSwapchainImages_frame split: if_splits prod.splits)

text \<open>The loop succeeds when every construction in it does.\<close>

lemma populate_succeeds:
  "ctx \<Longrightarrow>
   \<forall>i < length imgs. bb_valid (new_VulkanBackbuffer env (length (backbuffers s) + i)) \<Longrightarrow>
   \<forall>img \<in> set imgs. VulkanImage_IsValid env img \<and> MakeFromBackendRenderTarget env img sz \<Longrightarrow>
   GrVkFormatToPixelConfig env (format (surface_format s)) \<noteq> kUnknown_GrPixelConfig \<Longrightarrow>
   fst (populate env ctx sz imgs s)"
proof (induction imgs arbitrary: s)
  case Nil
  then show ?case by simp
next
  case (Cons img imgs)
  let ?s' = "s\<lparr>backbuffers := backbuffers s @ [new_VulkanBackbuffer env (length (backbuffers s))],
      images := images s @ [\<lparr>image_handle = img, image_valid = True\<rparr>],
      surfaces := surfaces s @ [Some (SkSurface img sz)]\<rparr>"
  from Cons.prems(2) have first: "bb_valid (new_VulkanBackbuffer env (length (backbuffers s)))"
    by (metis add.right_neutral length_greater_0_conv list.distinct(1))
  from Cons.prems(2) have rest:
    "\<forall>i < length imgs. bb_valid (new_VulkanBackbuffer env (length (backbuffers ?s') + i))"
    by (auto simp: less_Suc_eq_0_disj dest: spec [of _ "Suc _"])
  from Cons.prems(3) have here: "VulkanImage_IsValid env img" "MakeFromBackendRenderTarget env img sz"
    and there: "\<forall>img \<in> set imgs. VulkanImage_IsValid env img \<and> MakeFromBackendRenderTarget env img sz"
    by simp_all
  from Cons.prems(4) have fmt:
    "GrVkFormatToPixelConfig env (format (surface_format ?s')) \<noteq> kUnknown_GrPixelConfig"
    by simp
  from Cons.IH [OF Cons.prems(1) rest there fmt] first here Cons.prems(1,4)
  show ?case
    by (simp add: Let_def CreateSkiaSurface_def)
qed

text \<open>
  When the steps before the creation succeed and \<^verbatim>\<open>ChoosePresentMode\<close> returns true
  without writing a mode, the constructor asks for a swapchain with the mode it started
  from.
\<close>

lemma construct_creates_swapchain:
  assumes "device_IsValid env" "surface_IsValid env" "ctx"
    and "fst (GetSurfaceCapabilities env)"
    and "fst (ChooseSurfaceFormat env)"
    and "ChoosePresentMode env = (True, None)"
    and "GetPhysicalDeviceSurfaceSupportKHR env = (VK_SUCCESS, True)"
  shows "\<exists>ci. snd (construct env ctx old) =
           [CreateSwapchainKHR ci (fst (CreateSwapchainKHR_result env))] \<and>
         ci_presentMode ci = VK_PRESENT_MODE_FIFO_KHR"
  using assms
  by (auto simp: construct_def Let_def split: prod.splits)

lemma construct_succeeds:
  assumes "device_IsValid env" "surface_IsValid env" "ctx"
    and "fst (GetSurfaceCapabilities env)"
    and "ChooseSurfaceFormat env = (True, Some fmt)"
    and "ChoosePresentMode env = (True, None)"
    and "GetPhysicalDeviceSurfaceSupportKHR env = (VK_SUCCESS, True)"
    and "fst (CreateSwapchainKHR_result env) = VK_SUCCESS"
    and "GetImages env \<noteq> []"
    and "\<forall>i < length (GetImages env). bb_valid (new_VulkanBackbuffer env i)"
    and "\<forall>img \<in> set (GetImages env).
           VulkanImage_IsValid env img \<and> (\<forall>sz. MakeFromBackendRenderTarget env img sz)"
    and "GrVkFormatToPixelConfig env (format fmt) \<noteq> kUnknown_GrPixelConfig"
  shows "IsValid (fst (construct env ctx old))"
proof -
  have images_ok: "ok" if call: "CreateSwapchainImages env True s = (ok, s')"
    and empty: "backbuffers s = []" and chosen: "surface_format s = fmt" for s ok s'
  proof -
    from assms(10,11,12) empty chosen
    have "fst (populate env True (GetSize s) (GetImages env) s)"
      by (intro populate_succeeds; cases "GetSize s"; simp)
    with call assms(9) show ?thesis
      by (simp add: CreateSwapchainImages_def)
  qed
  from assms(1-8) show ?thesis
    by (cases "snd (GetSurfaceCapabilities env)")
       (auto simp: construct_def Let_def IsValid_def initial_swapchain_def
          split: prod.splits dest!: images_ok)
qed

lemma GetImages_count:
  "GetImages env \<noteq> [] \<Longrightarrow>
   length (GetImages env) = unat (snd (GetSwapchainImagesKHR_count env)) \<and>
   snd (GetSwapchainImagesKHR_count env) \<noteq> 0"
  by (auto simp: GetImages_def Let_def split: prod.splits if_splits)

lemma example_construct_run:
  "construct example_negotiation True None =
     (example_chain,
      [CreateSwapchainKHR
         \<lparr>ci_surface = 7, ci_minImageCount = 3, ci_imageFormat = 44, ci_imageColorSpace = 0,
          ci_imageExtent = \<lparr>width = 800, height = 600\<rparr>,
          ci_presentMode = VK_PRESENT_MODE_FIFO_KHR, ci_oldSwapchain = 0\<rparr> VK_SUCCESS])"
  by (simp add: construct_def example_negotiation_def example_chain_def initial_swapchain_def
      CreateSwapchainImages_def GetImages_def GetSize_def clamp_extent_def CreateSkiaSurface_def
      example_capabilities_def example_backbuffer_def VK_NULL_HANDLE_def Let_def)

subsection \<open>The invariant under the two methods\<close>

lemma GetNextBackbuffer_frame:
  "GetNextBackbuffer s = (p, s0) \<Longrightarrow>
   backbuffers s0 = backbuffers s \<and> images s0 = images s \<and> surfaces s0 = surfaces s \<and>
   valid s0 = valid s \<and> current_image_index s0 = current_image_index s \<and>
   (backbuffers s \<noteq> [] \<and> current_backbuffer_index s < length (backbuffers s) \<longrightarrow>
      current_backbuffer_index s0 < length (backbuffers s)) \<and>
   (\<forall>slot. p = Some slot \<longrightarrow>
      slot = (current_backbuffer_index s + 1) mod length (backbuffers s) \<and>
      current_backbuffer_index s0 = slot \<and> backbuffers s \<noteq> [])"
  by (auto simp: GetNextBackbuffer_def Let_def split: if_splits)

lemma AcquireSurface_frame:
  "AcquireSurface env s = Inr (r, s', log) \<Longrightarrow>
   backbuffers s' = backbuffers s \<and> images s' = images s \<and> surfaces s' = surfaces s \<and>
   valid s' = valid s \<and>
   (fst r = Success \<longrightarrow>
      current_backbuffer_index s' = (current_backbuffer_index s + 1) mod length (backbuffers s) \<and>
      backbuffers s \<noteq> [] \<and>
      current_image_index s' = unat (AcquireNextImageKHR_index env) \<and>
      current_image_index s' < length (images s))"
  by (auto simp: acquire_defs split: acquire_splits)

lemma AcquireSurface_chain_inv:
  assumes "chain_inv s"
  shows "\<exists>r s' log. AcquireSurface env s = Inr (r, s', log) \<and> chain_inv s'"
proof (cases "IsValid s")
  case False
  then show ?thesis
    by (auto simp: AcquireSurface_def chain_inv_def)
next
  case True
  with assms have inv:
    "length (backbuffers s) = length (images s)" "length (images s) = length (surfaces s)"
    "length (images s) < 2 ^ 32" "current_image_index s < length (images s)"
    "current_backbuffer_index s < length (backbuffers s)" "None \<notin> set (surfaces s)"
    by (simp_all add: chain_inv_def)
  obtain p s0 where next_slot: "GetNextBackbuffer s = (p, s0)"
    by (cases "GetNextBackbuffer s")
  from GetNextBackbuffer_frame [OF next_slot] inv True have inv0: "chain_inv s0"
    and same: "images s0 = images s" "surfaces s0 = surfaces s"
    by (auto simp: chain_inv_def IsValid_def)
  have inv1: "chain_inv (s0\<lparr>current_pipeline_stage := st\<rparr>)" for st
    using inv0 by (auto simp: chain_inv_def IsValid_def)
  have inv2: "i < length (images s) \<Longrightarrow>
      chain_inv (s0\<lparr>current_pipeline_stage := st, current_image_index := i\<rparr>)" for st i
    using inv0 same by (auto simp: chain_inv_def IsValid_def)
  from True next_slot inv0 inv1 inv2 same inv(2) show ?thesis
    by (auto simp: AcquireSurface_def Let_def split: acquire_splits)
qed

lemma Submit_frame:
  "Submit env s = Inr (ok, s', log) \<Longrightarrow>
   backbuffers s' = backbuffers s \<and> images s' = images s \<and> surfaces s' = surfaces s \<and>
   valid s' = valid s \<and> swapchain s' = swapchain s \<and>
   current_backbuffer_index s' = current_backbuffer_index s \<and>
   current_image_index s' = current_image_index s"
  by (auto simp: submit_defs split: acquire_splits)

lemma Submit_returns:
  assumes "chain_inv s"
  shows "\<exists>ok s' log. Submit env s = Inr (ok, s', log)"
proof (cases "IsValid s")
  case False
  then show ?thesis by (auto simp: Submit_def)
next
  case True
  with assms have inv:
    "length (backbuffers s) = length (images s)" "length (images s) = length (surfaces s)"
    "current_image_index s < length (images s)"
    "current_backbuffer_index s < length (backbuffers s)" "None \<notin> set (surfaces s)"
    by (simp_all add: chain_inv_def)
  from inv have "surfaces s ! current_image_index s \<in> set (surfaces s)"
    by simp
  with inv(5) obtain sk where "surfaces s ! current_image_index s = Some sk"
    by (cases "surfaces s ! current_image_index s") auto
  with True inv show ?thesis
    by (auto simp: Submit_def Let_def)
qed

lemma Submit_chain_inv:
  assumes "chain_inv s"
  shows "\<exists>ok s' log. Submit env s = Inr (ok, s', log) \<and> chain_inv s'"
proof -
  from Submit_returns [OF assms] obtain ok s' log where run: "Submit env s = Inr (ok, s', log)"
    by blast
  from Submit_frame [OF run] assms have "chain_inv s'"
    by (auto simp: chain_inv_def IsValid_def)
  with run show ?thesis by blast
qed

lemma Submit_slot:
  "c \<in> set (calls_of (Submit env s)) \<Longrightarrow> bb = backbuffers s ! current_backbuffer_index s \<Longrightarrow>
   (\<forall>cb r. c = Begin cb r \<or> c = End cb r \<longrightarrow> cb = render_command_buffer bb) \<and>
   (\<forall>h cb a b acc l r. c = InsertImageMemoryBarrier h cb a b acc l r \<longrightarrow>
      cb = render_command_buffer bb) \<and>
   (\<forall>st ws ss cbs f r. c = QueueSubmit st ws ss cbs f r \<longrightarrow>
      ss = [render_semaphore bb] \<and> cbs = [render_command_buffer bb] \<and> f = render_fence bb) \<and>
   (\<forall>ws sc ix r. c = QueuePresentKHR ws sc ix r \<longrightarrow> ws = [render_semaphore bb])"
  by (auto simp: submit_defs split: acquire_splits)

lemma frame_slots_nth:
  "i < length (frame_slots envs s) \<Longrightarrow>
   frame_slots envs s ! i = (current_backbuffer_index s + i + 1) mod length (backbuffers s)"
proof (induction envs arbitrary: s i)
  case Nil
  then show ?case by simp
next
  case (Cons e envs)
  from Cons.prems obtain r s1 log1 ok s2 log2 where
    acquire: "AcquireSurface (fst e) s = Inr (r, s1, log1)" "fst r = Success"
    and submit: "Submit (snd e) s1 = Inr (ok, s2, log2)"
    and slots: "frame_slots (e # envs) s = current_backbuffer_index s1 # frame_slots envs s2"
    by (auto split: sum.splits if_splits prod.splits)
  from AcquireSurface_frame [OF acquire(1)] acquire(2) Submit_frame [OF submit]
  have ring: "backbuffers s2 = backbuffers s"
    and slot1: "current_backbuffer_index s1 =
        (current_backbuffer_index s + 1) mod length (backbuffers s)"
    and slot2: "current_backbuffer_index s2 = current_backbuffer_index s1"
    by simp_all
  show ?case
  proof (cases i)
    case 0
    with slots slot1 show ?thesis by simp
  next
    case (Suc j)
    with Cons.prems slots have "j < length (frame_slots envs s2)"
      by simp
    from Cons.IH [OF this] have
      "frame_slots envs s2 ! j = (current_backbuffer_index s2 + j + 1) mod length (backbuffers s2)" .
    also have "\<dots> = ((current_backbuffer_index s + 1) mod length (backbuffers s) + (j + 1))
        mod length (backbuffers s)"
      by (simp only: ring slot1 slot2 add.assoc)
    also have "\<dots> = ((current_backbuffer_index s + 1) + (j + 1)) mod length (backbuffers s)"
      by (rule mod_add_left_eq)
    also have "(current_backbuffer_index s + 1) + (j + 1) = current_backbuffer_index s + i + 1"
      using Suc by simp
    finally show ?thesis
      using slots Suc by simp
  qed
qed

lemma example_frames_run:
  "frame_slots (replicate 5 (example_acquire, example_submit)) example_chain = [1, 2, 0, 1, 2]"
  by code_simp

subsection \<open>The sizes of a negotiated chain\<close>

text \<open>
  C3. A chain that the constructor marks valid has as many backbuffers as images and as
  many images as surfaces, all equal to the count the platform reported for the images
  of the swapchain, which is at least 1. When the platform reports no image (the count
  is zero, or \<^verbatim>\<open>GetImages\<close> returns the empty vector for another reason) the chain
  is invalid.
\<close>

theorem negotiated_chain_sizes:
  "(IsValid (fst (construct env ctx old)) \<longrightarrow>
      length (backbuffers (fst (construct env ctx old))) =
        length (images (fst (construct env ctx old))) \<and>
      length (images (fst (construct env ctx old))) =
        length (surfaces (fst (construct env ctx old))) \<and>
      length (images (fst (construct env ctx old))) =
        unat (snd (GetSwapchainImagesKHR_count env)) \<and>
      1 \<le> length (images (fst (construct env ctx old)))) \<and>
   (snd (GetSwapchainImagesKHR_count env) = 0 \<longrightarrow> \<not> IsValid (fst (construct env ctx old))) \<and>
   (GetImages env = [] \<longrightarrow> \<not> IsValid (fst (construct env ctx old)))"
proof (intro conjI impI)
  assume ok: "IsValid (fst (construct env ctx old))"
  note sizes = construct_sizes [OF ok]
  from sizes have count: "length (GetImages env) = unat (snd (GetSwapchainImagesKHR_count env))"
    using GetImages_count by blast
  from sizes show "length (backbuffers (fst (construct env ctx old))) =
      length (images (fst (construct env ctx old)))"
    by simp
  from sizes show "length (images (fst (construct env ctx old))) =
      length (surfaces (fst (construct env ctx old)))"
    by simp
  from sizes count show "length (images (fst (construct env ctx old))) =
      unat (snd (GetSwapchainImagesKHR_count env))"
    by simp
  from sizes show "1 \<le> length (images (fst (construct env ctx old)))"
    by (cases "GetImages env") simp_all
next
  assume "snd (GetSwapchainImagesKHR_count env) = 0"
  then have "GetImages env = []"
    using GetImages_count by blast
  then show "\<not> IsValid (fst (construct env ctx old))"
    using construct_sizes by blast
next
  assume "GetImages env = []"
  then show "\<not> IsValid (fst (construct env ctx old))"
    using construct_sizes by blast
qed

theorem negotiated_chain_sizes_witness:
  "IsValid (fst (construct example_negotiation True None)) \<and>
   length (backbuffers (fst (construct example_negotiation True None))) = 3 \<and>
   length (images (fst (construct example_negotiation True None))) = 3 \<and>
   length (surfaces (fst (construct example_negotiation True None))) = 3 \<and>
   unat (snd (GetSwapchainImagesKHR_count example_negotiation)) = 3 \<and>
   snd (GetSwapchainImagesKHR_count example_negotiation_no_image) = 0 \<and>
   GetImages example_negotiation_no_image = [] \<and>
   \<not> IsValid (fst (construct example_negotiation_no_image True None))"
proof -
  have ok: "IsValid (fst (construct example_negotiation True None))"
    by (simp add: example_construct_run example_chain_def IsValid_def)
  have count: "unat (snd (GetSwapchainImagesKHR_count example_negotiation)) = 3"
    by (simp add: example_negotiation_def)
  have zero: "snd (GetSwapchainImagesKHR_count example_negotiation_no_image) = 0"
    by (simp add: example_negotiation_no_image_def)
  have none: "GetImages example_negotiation_no_image = []"
    by (simp add: GetImages_def example_negotiation_no_image_def)
  from negotiated_chain_sizes [of example_negotiation True None]
    negotiated_chain_sizes [of example_negotiation_no_image True None]
    ok count zero none
  show ?thesis by simp
qed

subsection \<open>The present mode\<close>

text \<open>
  C8. The constructor starts from the present mode \<^verbatim>\<open>VK_PRESENT_MODE_FIFO_KHR\<close> and
  hands it to \<^verbatim>\<open>ChoosePresentMode\<close>. A device that offers no alternative leaves it as
  it is and returns true. Then the negotiation does not stop at the present-mode step:
  when the steps before the creation succeed, the constructor asks the platform for
  one swapchain, with the FIFO mode; when the creation and the construction of every
  backbuffer, image and surface succeed as well, the chain is valid, and it was created
  with the FIFO mode. More generally, whenever \<^verbatim>\<open>ChoosePresentMode\<close> writes no mode,
  every swapchain the constructor asks for has the FIFO mode.
\<close>

theorem present_mode_default:
  "(device_IsValid env \<and> surface_IsValid env \<and> ctx \<and>
    fst (GetSurfaceCapabilities env) \<and> fst (ChooseSurfaceFormat env) \<and>
    ChoosePresentMode env = (True, None) \<and>
    GetPhysicalDeviceSurfaceSupportKHR env = (VK_SUCCESS, True) \<longrightarrow>
      (\<exists>ci. snd (construct env ctx old) =
              [CreateSwapchainKHR ci (fst (CreateSwapchainKHR_result env))] \<and>
            ci_presentMode ci = VK_PRESENT_MODE_FIFO_KHR)) \<and>
   (device_IsValid env \<and> surface_IsValid env \<and> ctx \<and>
    fst (GetSurfaceCapabilities env) \<and> ChooseSurfaceFormat env = (True, Some fmt) \<and>
    ChoosePresentMode env = (True, None) \<and>
    GetPhysicalDeviceSurfaceSupportKHR env = (VK_SUCCESS, True) \<and>
    fst (CreateSwapchainKHR_result env) = VK_SUCCESS \<and>
    GetImages env \<noteq> [] \<and>
    (\<forall>i < length (GetImages env). bb_valid (new_VulkanBackbuffer env i)) \<and>
    (\<forall>img \<in> set (GetImages env).
       VulkanImage_IsValid env img \<and> (\<forall>sz. MakeFromBackendRenderTarget env img sz)) \<and>
    GrVkFormatToPixelConfig env (format fmt) \<noteq> kUnknown_GrPixelConfig \<longrightarrow>
      IsValid (fst (construct env ctx old)) \<and>
      (\<exists>ci. snd (construct env ctx old) = [CreateSwapchainKHR ci VK_SUCCESS] \<and>
            ci_presentMode ci = VK_PRESENT_MODE_FIFO_KHR)) \<and>
   (snd (ChoosePresentMode env) = None \<longrightarrow>
      (\<forall>c \<in> set (snd (construct env ctx old)).
         \<exists>ci r. c = CreateSwapchainKHR ci r \<and> ci_presentMode ci = VK_PRESENT_MODE_FIFO_KHR) \<and>
      (IsValid (fst (construct env ctx old)) \<longrightarrow>
         fst (ChoosePresentMode env) \<and>
         (\<exists>ci. snd (construct env ctx old) = [CreateSwapchainKHR ci VK_SUCCESS] \<and>
               ci_presentMode ci = VK_PRESENT_MODE_FIFO_KHR)))"
proof (intro conjI impI)
  assume "device_IsValid env \<and> surface_IsValid env \<and> ctx \<and>
    fst (GetSurfaceCapabilities env) \<and> fst (ChooseSurfaceFormat env) \<and>
    ChoosePresentMode env = (True, None) \<and>
    GetPhysicalDeviceSurfaceSupportKHR env = (VK_SUCCESS, True)"
  then show "\<exists>ci. snd (construct env ctx old) =
        [CreateSwapchainKHR ci (fst (CreateSwapchainKHR_result env))] \<and>
      ci_presentMode ci = VK_PRESENT_MODE_FIFO_KHR"
    by (intro construct_creates_swapchain) simp_all
next
  assume steps: "device_IsValid env \<and> surface_IsValid env \<and> ctx \<and>
    fst (GetSurfaceCapabilities env) \<and> ChooseSurfaceFormat env = (True, Some fmt) \<and>
    ChoosePresentMode env = (True, None) \<and>
    GetPhysicalDeviceSurfaceSupportKHR env = (VK_SUCCESS, True) \<and>
    fst (CreateSwapchainKHR_result env) = VK_SUCCESS \<and>
    GetImages env \<noteq> [] \<and>
    (\<forall>i < length (GetImages env). bb_valid (new_VulkanBackbuffer env i)) \<and>
    (\<forall>img \<in> set (GetImages env).
       VulkanImage_IsValid env img \<and> (\<forall>sz. MakeFromBackendRenderTarget env img sz)) \<and>
    GrVkFormatToPixelConfig env (format fmt) \<noteq> kUnknown_GrPixelConfig"
  then show ok: "IsValid (fst (construct env ctx old))"
    by (intro construct_succeeds [of env ctx fmt old]) simp_all
  from steps have "\<exists>ci. snd (construct env ctx old) =
        [CreateSwapchainKHR ci (fst (CreateSwapchainKHR_result env))] \<and>
      ci_presentMode ci = VK_PRESENT_MODE_FIFO_KHR"
    by (intro construct_creates_swapchain) simp_all
  with steps show "\<exists>ci. snd (construct env ctx old) = [CreateSwapchainKHR ci VK_SUCCESS] \<and>
      ci_presentMode ci = VK_PRESENT_MODE_FIFO_KHR"
    by simp
next
  assume untouched: "snd (ChoosePresentMode env) = None"
  show fifo: "\<forall>c \<in> set (snd (construct env ctx old)).
      \<exists>ci r. c = CreateSwapchainKHR ci r \<and> ci_presentMode ci = VK_PRESENT_MODE_FIFO_KHR"
  proof
    fix c
    assume "c \<in> set (snd (construct env ctx old))"
    from construct_log [OF this] untouched
    show "\<exists>ci r. c = CreateSwapchainKHR ci r \<and> ci_presentMode ci = VK_PRESENT_MODE_FIFO_KHR"
      by auto
  qed
  assume ok: "IsValid (fst (construct env ctx old))"
  from construct_valid_log [OF ok] show "fst (ChoosePresentMode env)"
    by simp
  from construct_valid_log [OF ok] obtain ci where
    log: "snd (construct env ctx old) = [CreateSwapchainKHR ci VK_SUCCESS]"
    by blast
  with fifo have "ci_presentMode ci = VK_PRESENT_MODE_FIFO_KHR"
    by simp
  with log show "\<exists>ci. snd (construct env ctx old) = [CreateSwapchainKHR ci VK_SUCCESS] \<and>
      ci_presentMode ci = VK_PRESENT_MODE_FIFO_KHR"
    by blast
qed

theorem present_mode_default_witness:
  "device_IsValid example_negotiation \<and> surface_IsValid example_negotiation \<and>
   fst (GetSurfaceCapabilities example_negotiation) \<and>
   ChooseSurfaceFormat example_negotiation = (True, Some \<lparr>format = 44, colorSpace = 0\<rparr>) \<and>
   ChoosePresentMode example_negotiation = (True, None) \<and>
   GetPhysicalDeviceSurfaceSupportKHR example_negotiation = (VK_SUCCESS, True) \<and>
   fst (CreateSwapchainKHR_result example_negotiation) = VK_SUCCESS \<and>
   GetImages example_negotiation = [101, 102, 103] \<and>
   IsValid (fst (construct example_negotiation True None)) \<and>
   (\<exists>ci. snd (construct example_negotiation True None) = [CreateSwapchainKHR ci VK_SUCCESS] \<and>
         ci_presentMode ci = VK_PRESENT_MODE_FIFO_KHR)"
proof -
  have answers: "device_IsValid example_negotiation" "surface_IsValid example_negotiation"
    "fst (GetSurfaceCapabilities example_negotiation)"
    "ChooseSurfaceFormat example_negotiation = (True, Some \<lparr>format = 44, colorSpace = 0\<rparr>)"
    "ChoosePresentMode example_negotiation = (True, None)"
    "GetPhysicalDeviceSurfaceSupportKHR example_negotiation = (VK_SUCCESS, True)"
    "fst (CreateSwapchainKHR_result example_negotiation) = VK_SUCCESS"
    by (simp_all add: example_negotiation_def)
  have imgs: "GetImages example_negotiation = [101, 102, 103]"
    by (simp add: GetImages_def example_negotiation_def)
  have constructions:
    "\<forall>i < length (GetImages example_negotiation).
       bb_valid (new_VulkanBackbuffer example_negotiation i)"
    "\<forall>img \<in> set (GetImages example_negotiation).
       VulkanImage_IsValid example_negotiation img \<and>
       (\<forall>sz. MakeFromBackendRenderTarget example_negotiation img sz)"
    "GrVkFormatToPixelConfig example_negotiation 44 \<noteq> kUnknown_GrPixelConfig"
    by (simp_all add: imgs)
       (simp_all add: example_negotiation_def example_backbuffer_def VK_NULL_HANDLE_def)
  have created: "IsValid (fst (construct example_negotiation True None)) \<and>
    (\<exists>ci. snd (construct example_negotiation True None) = [CreateSwapchainKHR ci VK_SUCCESS] \<and>
          ci_presentMode ci = VK_PRESENT_MODE_FIFO_KHR)"
    by (rule present_mode_default [of example_negotiation True None
          "\<lparr>format = 44, colorSpace = 0\<rparr>", THEN conjunct2, THEN conjunct1, rule_format])
       (simp add: answers imgs constructions)
  show ?thesis
    by (intro conjI answers imgs created [THEN conjunct1] created [THEN conjunct2])
qed

subsection \<open>The current image index stays inside the vectors\<close>

text \<open>
  C9. The constructor leaves \<^verbatim>\<open>current_image_index_\<close> at 0 and its chain satisfies
  the invariant (when it is valid it has at least one image, so the index is below
  \<^verbatim>\<open>images_.size()\<close>). On a chain that satisfies the invariant, \<^verbatim>\<open>AcquireSurface\<close>
  and \<^verbatim>\<open>Submit\<close> return without undefined behaviour and the chain satisfies the
  invariant afterwards. Whenever \<^verbatim>\<open>AcquireSurface\<close> changes the index, the new value is
  the index the platform returned, checked to be below \<^verbatim>\<open>images_.size()\<close>. On a valid
  chain that satisfies the invariant the index is below the sizes of \<^verbatim>\<open>images_\<close> and
  of \<^verbatim>\<open>surfaces_\<close>, which are the two vectors \<^verbatim>\<open>Submit\<close> reads at it unchecked.
\<close>

theorem current_image_index_in_bounds:
  "chain_inv (fst (construct neg ctx old)) \<and>
   current_image_index (fst (construct neg ctx old)) = 0 \<and>
   (IsValid (fst (construct neg ctx old)) \<longrightarrow>
      1 \<le> length (images (fst (construct neg ctx old)))) \<and>
   (chain_inv s \<longrightarrow> (\<exists>r s' log. AcquireSurface ea s = Inr (r, s', log) \<and> chain_inv s')) \<and>
   (chain_inv s \<longrightarrow> (\<exists>ok s' log. Submit es s = Inr (ok, s', log) \<and> chain_inv s')) \<and>
   (\<forall>r s' log. AcquireSurface ea s = Inr (r, s', log) \<and>
        current_image_index s' \<noteq> current_image_index s \<longrightarrow>
        current_image_index s' = unat (AcquireNextImageKHR_index ea) \<and>
        current_image_index s' < length (images s') \<and> images s' = images s) \<and>
   (chain_inv s \<and> IsValid s \<longrightarrow>
      current_image_index s < length (images s) \<and>
      current_image_index s < length (surfaces s))"
proof (intro conjI)
  show zero: "current_image_index (fst (construct neg ctx old)) = 0"
    by (rule construct_current_image_index)
  show "chain_inv (fst (construct neg ctx old))"
  proof (cases "IsValid (fst (construct neg ctx old))")
    case False
    then show ?thesis by (simp add: chain_inv_def)
  next
    case True
    note sizes = construct_sizes [OF True]
    from sizes have "length (GetImages neg) = unat (snd (GetSwapchainImagesKHR_count neg))"
      using GetImages_count by blast
    moreover have "unat (snd (GetSwapchainImagesKHR_count neg)) < 2 ^ 32"
      using unsigned_less [of "snd (GetSwapchainImagesKHR_count neg)"] by simp
    ultimately have "length (GetImages neg) < 2 ^ 32"
      by simp
    moreover from sizes have "0 < length (GetImages neg)"
      by simp
    ultimately show ?thesis
      using sizes zero by (simp add: chain_inv_def)
  qed
  show "IsValid (fst (construct neg ctx old)) \<longrightarrow>
      1 \<le> length (images (fst (construct neg ctx old)))"
  proof
    assume "IsValid (fst (construct neg ctx old))"
    from construct_sizes [OF this] show "1 \<le> length (images (fst (construct neg ctx old)))"
      by (cases "GetImages neg") simp_all
  qed
  show "chain_inv s \<longrightarrow> (\<exists>r s' log. AcquireSurface ea s = Inr (r, s', log) \<and> chain_inv s')"
    using AcquireSurface_chain_inv by blast
  show "chain_inv s \<longrightarrow> (\<exists>ok s' log. Submit es s = Inr (ok, s', log) \<and> chain_inv s')"
    using Submit_chain_inv by blast
  show "\<forall>r s' log. AcquireSurface ea s = Inr (r, s', log) \<and>
        current_image_index s' \<noteq> current_image_index s \<longrightarrow>
        current_image_index s' = unat (AcquireNextImageKHR_index ea) \<and>
        current_image_index s' < length (images s') \<and> images s' = images s"
  proof (intro allI impI)
    fix r s' log
    assume run: "AcquireSurface ea s = Inr (r, s', log) \<and>
        current_image_index s' \<noteq> current_image_index s"
    with AcquireSurface_failed_frame [of ea s r s' log] have "fst r = Success"
      by blast
    with AcquireSurface_frame [of ea s r s' log] run
    show "current_image_index s' = unat (AcquireNextImageKHR_index ea) \<and>
        current_image_index s' < length (images s') \<and> images s' = images s"
      by simp
  qed
  show "chain_inv s \<and> IsValid s \<longrightarrow>
      current_image_index s < length (images s) \<and>
      current_image_index s < length (surfaces s)"
    by (auto simp: chain_inv_def)
qed

theorem current_image_index_in_bounds_witness:
  "IsValid (fst (construct example_negotiation True None)) \<and>
   1 \<le> length (images (fst (construct example_negotiation True None))) \<and>
   chain_inv example_chain \<and> IsValid example_chain \<and>
   AcquireSurface example_acquire example_chain =
     Inr ((Success, Some (SkSurface 103 (800, 600))), example_acquired,
          WaitFences 1 True # ResetFences 1 True # example_acquire_log) \<and>
   current_image_index example_acquired \<noteq> current_image_index example_chain \<and>
   (current_image_index example_acquired = unat (AcquireNextImageKHR_index example_acquire) \<and>
    current_image_index example_acquired < length (images example_acquired)) \<and>
   chain_inv example_acquired \<and>
   (\<exists>ok s' log. Submit example_submit example_acquired = Inr (ok, s', log) \<and> chain_inv s') \<and>
   (current_image_index example_chain < length (images example_chain) \<and>
    current_image_index example_chain < length (surfaces example_chain))"
proof -
  have ok: "IsValid (fst (construct example_negotiation True None))"
    by (simp add: example_construct_run example_chain_def IsValid_def)
  have inv: "chain_inv example_chain"
    by (simp add: chain_inv_def example_chain_def IsValid_def)
  have valid: "IsValid example_chain"
    by (simp add: example_chain_def IsValid_def)
  have inv': "chain_inv example_acquired"
    by (simp add: chain_inv_def example_acquired_def example_chain_def IsValid_def)
  have changed: "current_image_index example_acquired \<noteq> current_image_index example_chain"
    by (simp add: example_acquired_def example_chain_def)
  note at_chain = current_image_index_in_bounds [of example_negotiation True None example_chain
      example_acquire example_submit]
  note at_acquired = current_image_index_in_bounds [of example_negotiation True None
      example_acquired example_acquire example_submit]
  from at_chain ok
  have one: "1 \<le> length (images (fst (construct example_negotiation True None)))"
    by blast
  from at_chain inv valid
  have bounds: "current_image_index example_chain < length (images example_chain) \<and>
      current_image_index example_chain < length (surfaces example_chain)"
    by blast
  from at_chain example_acquire_run changed
  have assigned:
    "current_image_index example_acquired = unat (AcquireNextImageKHR_index example_acquire) \<and>
     current_image_index example_acquired < length (images example_acquired)"
    by blast
  from at_acquired inv'
  have submit: "\<exists>ok s' log. Submit example_submit example_acquired = Inr (ok, s', log) \<and>
      chain_inv s'"
    by blast
  show ?thesis
    by (intro conjI ok one inv valid example_acquire_run changed assigned inv' submit bounds)
qed

subsection \<open>The ring of slots\<close>

text \<open>
  C2. An \<^verbatim>\<open>AcquireSurface\<close> that succeeds moves \<^verbatim>\<open>current_backbuffer_index_\<close> to
  the next slot modulo the size of the ring, and its calls on fences are on that slot.
  \<^verbatim>\<open>Submit\<close> leaves the index as it is and records into, submits and signals the
  render objects of the slot at that index. So over consecutive frames, frame \<open>i\<close> uses
  slot \<open>(current_backbuffer_index + i + 1) mod ring_size\<close>, and frame \<open>i + ring_size\<close>
  uses the slot of frame \<open>i\<close>.
\<close>

theorem slot_ring:
  "(\<forall>sk s' log. AcquireSurface ea s = Inr ((Success, sk), s', log) \<longrightarrow>
      current_backbuffer_index s' =
        (current_backbuffer_index s + 1) mod length (backbuffers s) \<and>
      backbuffers s' = backbuffers s \<and>
      (\<forall>c \<in> set log. \<forall>k b. c = WaitFences k b \<or> c = ResetFences k b \<longrightarrow>
         k = current_backbuffer_index s')) \<and>
   (\<forall>ok s' log. Submit es s = Inr (ok, s', log) \<longrightarrow>
      current_backbuffer_index s' = current_backbuffer_index s \<and>
      backbuffers s' = backbuffers s \<and>
      (\<forall>c \<in> set log.
         (\<forall>cb r. c = Begin cb r \<or> c = End cb r \<longrightarrow>
            cb = render_command_buffer (backbuffers s ! current_backbuffer_index s)) \<and>
         (\<forall>st ws ss cbs f r. c = QueueSubmit st ws ss cbs f r \<longrightarrow>
            ss = [render_semaphore (backbuffers s ! current_backbuffer_index s)] \<and>
            cbs = [render_command_buffer (backbuffers s ! current_backbuffer_index s)] \<and>
            f = render_fence (backbuffers s ! current_backbuffer_index s)))) \<and>
   (\<forall>i. i < length (frame_slots envs s) \<longrightarrow>
      frame_slots envs s ! i =
        (current_backbuffer_index s + i + 1) mod length (backbuffers s)) \<and>
   (\<forall>i. i + length (backbuffers s) < length (frame_slots envs s) \<longrightarrow>
      frame_slots envs s ! (i + length (backbuffers s)) = frame_slots envs s ! i)"
proof (intro conjI allI impI)
  fix sk s' log
  assume run: "AcquireSurface ea s = Inr ((Success, sk), s', log)"
  from AcquireSurface_frame [OF run]
  show slot: "current_backbuffer_index s' =
      (current_backbuffer_index s + 1) mod length (backbuffers s)"
    and "backbuffers s' = backbuffers s"
    by simp_all
  show "\<forall>c \<in> set log. \<forall>k b. c = WaitFences k b \<or> c = ResetFences k b \<longrightarrow>
      k = current_backbuffer_index s'"
  proof (intro ballI allI impI)
    fix c k b
    assume "c \<in> set log" and fence: "c = WaitFences k b \<or> c = ResetFences k b"
    with run have "c \<in> set (calls_of (AcquireSurface ea s))"
      by (simp add: calls_of_def)
    from AcquireSurface_fence_slot [OF this] fence slot
    show "k = current_backbuffer_index s'"
      by auto
  qed
next
  fix ok s' log
  assume run: "Submit es s = Inr (ok, s', log)"
  from Submit_frame [OF run]
  show "current_backbuffer_index s' = current_backbuffer_index s"
    and "backbuffers s' = backbuffers s"
    by simp_all
  show "\<forall>c \<in> set log.
      (\<forall>cb r. c = Begin cb r \<or> c = End cb r \<longrightarrow>
         cb = render_command_buffer (backbuffers s ! current_backbuffer_index s)) \<and>
      (\<forall>st ws ss cbs f r. c = QueueSubmit st ws ss cbs f r \<longrightarrow>
         ss = [render_semaphore (backbuffers s ! current_backbuffer_index s)] \<and>
         cbs = [render_command_buffer (backbuffers s ! current_backbuffer_index s)] \<and>
         f = render_fence (backbuffers s ! current_backbuffer_index s))"
  proof
    fix c
    assume "c \<in> set log"
    with run have "c \<in> set (calls_of (Submit es s))"
      by (simp add: calls_of_def)
    from Submit_slot [OF this refl]
    show "(\<forall>cb r. c = Begin cb r \<or> c = End cb r \<longrightarrow>
         cb = render_command_buffer (backbuffers s ! current_backbuffer_index s)) \<and>
      (\<forall>st ws ss cbs f r. c = QueueSubmit st ws ss cbs f r \<longrightarrow>
         ss = [render_semaphore (backbuffers s ! current_backbuffer_index s)] \<and>
         cbs = [render_command_buffer (backbuffers s ! current_backbuffer_index s)] \<and>
         f = render_fence (backbuffers s ! current_backbuffer_index s))"
      by blast
  qed
next
  fix i
  assume "i < length (frame_slots envs s)"
  then show "frame_slots envs s ! i =
      (current_backbuffer_index s + i + 1) mod length (backbuffers s)"
    by (rule frame_slots_nth)
next
  fix i
  assume later: "i + length (backbuffers s) < length (frame_slots envs s)"
  then have earlier: "i < length (frame_slots envs s)"
    by simp
  from frame_slots_nth [OF later]
  have "frame_slots envs s ! (i + length (backbuffers s)) =
      (current_backbuffer_index s + i + 1 + length (backbuffers s)) mod length (backbuffers s)"
    by (simp add: ac_simps)
  also have "\<dots> = (current_backbuffer_index s + i + 1) mod length (backbuffers s)"
    by (rule mod_add_self2)
  also have "\<dots> = frame_slots envs s ! i"
    using frame_slots_nth [OF earlier] by simp
  finally show "frame_slots envs s ! (i + length (backbuffers s)) = frame_slots envs s ! i" .
qed

theorem slot_ring_witness:
  "AcquireSurface example_acquire example_chain =
     Inr ((Success, Some (SkSurface 103 (800, 600))), example_acquired,
          WaitFences 1 True # ResetFences 1 True # example_acquire_log) \<and>
   current_backbuffer_index example_acquired =
     (current_backbuffer_index example_chain + 1) mod length (backbuffers example_chain) \<and>
   Submit example_submit example_acquired =
     Inr (True, example_acquired\<lparr>current_pipeline_stage := VK_PIPELINE_STAGE_BOTTOM_OF_PIPE_BIT\<rparr>,
          example_submit_log VK_SUCCESS) \<and>
   current_backbuffer_index
     (example_acquired\<lparr>current_pipeline_stage := VK_PIPELINE_STAGE_BOTTOM_OF_PIPE_BIT\<rparr>) =
     current_backbuffer_index example_acquired \<and>
   frame_slots (replicate 5 (example_acquire, example_submit)) example_chain = [1, 2, 0, 1, 2] \<and>
   length (backbuffers example_chain) = 3 \<and>
   (1::nat) + length (backbuffers example_chain)
     < length (frame_slots (replicate 5 (example_acquire, example_submit)) example_chain) \<and>
   frame_slots (replicate 5 (example_acquire, example_submit)) example_chain
       ! (1 + length (backbuffers example_chain)) =
     frame_slots (replicate 5 (example_acquire, example_submit)) example_chain ! 1"
proof -
  have ring: "length (backbuffers example_chain) = 3"
    by (simp add: example_chain_def)
  have later: "(1::nat) + length (backbuffers example_chain)
      < length (frame_slots (replicate 5 (example_acquire, example_submit)) example_chain)"
    by (simp add: example_frames_run ring)
  note at_chain = slot_ring [of example_acquire example_chain example_submit
      "replicate 5 (example_acquire, example_submit)"]
  note at_acquired = slot_ring [of example_acquire example_acquired example_submit
      "replicate 5 (example_acquire, example_submit)"]
  have moved: "current_backbuffer_index example_acquired =
      (current_backbuffer_index example_chain + 1) mod length (backbuffers example_chain)"
    by (rule at_chain [THEN conjunct1, rule_format, OF example_acquire_run, THEN conjunct1])
  have kept: "current_backbuffer_index
      (example_acquired\<lparr>current_pipeline_stage := VK_PIPELINE_STAGE_BOTTOM_OF_PIPE_BIT\<rparr>) =
      current_backbuffer_index example_acquired"
    by (rule at_acquired [THEN conjunct2, THEN conjunct1, rule_format, OF example_submit_run,
          THEN conjunct1])
  have again: "frame_slots (replicate 5 (example_acquire, example_submit)) example_chain
        ! (1 + length (backbuffers example_chain)) =
      frame_slots (replicate 5 (example_acquire, example_submit)) example_chain ! 1"
    by (rule at_chain [THEN conjunct2, THEN conjunct2, THEN conjunct2, rule_format, OF later])
  show ?thesis
    by (intro conjI example_acquire_run moved example_submit_run kept example_frames_run
        ring later again)
qed

end
